theory Spec2Isabelle
  imports Complex_Main "HOL-Library.Word"
begin

section \<open>Conventions of the embedding\<close>

text \<open>
  The Go sources compute in \<open>float64\<close>. The embedding reads every \<open>float64\<close> as a
  real number: rounding, overflow and the special values of IEEE arithmetic are outside
  the model. One place where the two differ visibly is a division by zero (Go yields
  NaN or an infinity, HOL yields 0); a statement that depends on a quotient therefore
  either carries the hypothesis that the divisor is not zero, or the model makes the
  division-by-zero case a result of its own.

  The matrix package (\<open>github.com/skelterjohn/go.matrix\<close>) is a dependency and not part
  of the sources. Its dense matrices are modelled by their dimensions and entries, its
  sum, product, transpose and scaling by the usual formulae, and its \<open>Inverse\<close>, which
  may fail, is a parameter of \<open>Update\<close>.
\<close>

section \<open>Package ahrs: constants\<close>

definition G :: real where
  "G = 32.1740 / 1.687810"

definition Big :: real where
  "Big = 1000000000"

definition Deg :: real where
  "Deg = pi / 180"

section \<open>Dense matrices\<close>

record DenseMatrix =
  rows :: nat
  cols :: nat
  elements :: "nat \<Rightarrow> nat \<Rightarrow> real"

definition Zeros :: "nat \<Rightarrow> nat \<Rightarrow> DenseMatrix" where
  "Zeros r c = \<lparr>rows = r, cols = c, elements = (\<lambda>i j. 0)\<rparr>"

definition Eye :: "nat \<Rightarrow> DenseMatrix" where
  "Eye n = \<lparr>rows = n, cols = n, elements = (\<lambda>i j. if i = j \<and> i < n then 1 else 0)\<rparr>"

definition GetM :: "DenseMatrix \<Rightarrow> nat \<Rightarrow> nat \<Rightarrow> real" where
  "GetM A i j = elements A i j"

definition SetM :: "DenseMatrix \<Rightarrow> nat \<Rightarrow> nat \<Rightarrow> real \<Rightarrow> DenseMatrix" where
  "SetM A i j v = A\<lparr>elements := (\<lambda>p q. if p = i \<and> q = j then v else elements A p q)\<rparr>"

definition SetAll :: "DenseMatrix \<Rightarrow> (nat \<times> nat \<times> real) list \<Rightarrow> DenseMatrix" where
  \<comment> \<open>a run of \<open>A.Set(i, j, v)\<close> statements, in the order written\<close>
  "SetAll A ws = foldl (\<lambda>B (i, j, v). SetM B i j v) A ws"

definition ProductM :: "DenseMatrix \<Rightarrow> DenseMatrix \<Rightarrow> DenseMatrix" where
  "ProductM A B =
     \<lparr>rows = rows A, cols = cols B,
      elements = (\<lambda>i j. \<Sum>k<cols A. elements A i k * elements B k j)\<rparr>"

definition SumM :: "DenseMatrix \<Rightarrow> DenseMatrix \<Rightarrow> DenseMatrix" where
  "SumM A B = \<lparr>rows = rows A, cols = cols A, elements = (\<lambda>i j. elements A i j + elements B i j)\<rparr>"

definition DifferenceM :: "DenseMatrix \<Rightarrow> DenseMatrix \<Rightarrow> DenseMatrix" where
  "DifferenceM A B =
     \<lparr>rows = rows A, cols = cols A, elements = (\<lambda>i j. elements A i j - elements B i j)\<rparr>"

definition ScaledM :: "DenseMatrix \<Rightarrow> real \<Rightarrow> DenseMatrix" where
  "ScaledM A c = \<lparr>rows = rows A, cols = cols A, elements = (\<lambda>i j. elements A i j * c)\<rparr>"

definition TransposeM :: "DenseMatrix \<Rightarrow> DenseMatrix" where
  "TransposeM A = \<lparr>rows = cols A, cols = rows A, elements = (\<lambda>i j. elements A j i)\<rparr>"

section \<open>Package ahrs: the state and the measurement\<close>

text \<open>
  The fields of \<open>State\<close> keep their names; its timestamp \<open>T\<close> and its matrices \<open>M\<close>
  and \<open>N\<close> are \<open>sT\<close>, \<open>sM\<close> and \<open>sN\<close>. The matrices of a state are those
  \<open>Initialize\<close> allocates (32 by 32).
\<close>

record State =
  U1 :: real  U2 :: real  U3 :: real
  Z1 :: real  Z2 :: real  Z3 :: real
  E0 :: real  E1 :: real  E2 :: real  E3 :: real
  H1 :: real  H2 :: real  H3 :: real
  N1 :: real  N2 :: real  N3 :: real
  V1 :: real  V2 :: real  V3 :: real
  C1 :: real  C2 :: real  C3 :: real
  F0 :: real  F1 :: real  F2 :: real  F3 :: real
  D1 :: real  D2 :: real  D3 :: real
  L1 :: real  L2 :: real  L3 :: real
  sT :: real
  sM :: DenseMatrix
  sN :: DenseMatrix
  e11 :: real  e12 :: real  e13 :: real
  e21 :: real  e22 :: real  e23 :: real
  e31 :: real  e32 :: real  e33 :: real
  f11 :: real  f12 :: real  f13 :: real
  f21 :: real  f22 :: real  f23 :: real
  f31 :: real  f32 :: real  f33 :: real

text \<open>
  The fields of \<open>Measurement\<close> carry the prefix \<open>m_\<close>. Its matrix is a pointer that
  \<open>PredictMeasurement\<close> leaves nil, hence an option.
\<close>

record Measurement =
  m_UValid :: bool  m_WValid :: bool  m_SValid :: bool  m_MValid :: bool
  m_U1 :: real  m_U2 :: real  m_U3 :: real
  m_W1 :: real  m_W2 :: real  m_W3 :: real
  m_A1 :: real  m_A2 :: real  m_A3 :: real
  m_B1 :: real  m_B2 :: real  m_B3 :: real
  m_M1 :: real  m_M2 :: real  m_M3 :: real
  m_T :: real
  m_M :: "DenseMatrix option"

datatype fault = NilPointer

section \<open>Package ahrs: the filter\<close>

text \<open>
  \<open>normalize\<close> of the source is \<open>normalize_state\<close> here (\<open>normalize\<close> is a constant of
  HOL). It assigns \<open>s.e21\<close> twice and never assigns \<open>s.e12\<close>.
\<close>

definition normalize_state :: "State \<Rightarrow> State" where
  "normalize_state s0 =
    (let ee = sqrt (E0 s0 * E0 s0 + E1 s0 * E1 s0 + E2 s0 * E2 s0 + E3 s0 * E3 s0);
         s = s0\<lparr>E0 := E0 s0 / ee\<rparr>;
         s = s\<lparr>E1 := E1 s / ee\<rparr>;
         s = s\<lparr>E2 := E2 s / ee\<rparr>;
         s = s\<lparr>E3 := E3 s / ee\<rparr>;
         ff = sqrt (F0 s * F0 s + F1 s * F1 s + F2 s * F2 s + F3 s * F3 s);
         s = s\<lparr>F0 := F0 s / ff\<rparr>;
         s = s\<lparr>F1 := F1 s / ff\<rparr>;
         s = s\<lparr>F2 := F2 s / ff\<rparr>;
         s = s\<lparr>F3 := F3 s / ff\<rparr>;
         s = s\<lparr>e11 := 2 * (E0 s * E0 s + E1 s * E1 s - 0.5)\<rparr>;
         s = s\<lparr>e21 := 2 * (E0 s * E3 s + E1 s * E2 s)\<rparr>;
         s = s\<lparr>e13 := 2 * (- E0 s * E2 s + E1 s * E3 s)\<rparr>;
         s = s\<lparr>e21 := 2 * (- E0 s * E3 s + E2 s * E1 s)\<rparr>;
         s = s\<lparr>e22 := 2 * (E0 s * E0 s + E2 s * E2 s - 0.5)\<rparr>;
         s = s\<lparr>e23 := 2 * (E0 s * E1 s + E2 s * E3 s)\<rparr>;
         s = s\<lparr>e31 := 2 * (E0 s * E2 s + E3 s * E1 s)\<rparr>;
         s = s\<lparr>e32 := 2 * (- E0 s * E1 s + E3 s * E2 s)\<rparr>;
         s = s\<lparr>e33 := 2 * (E0 s * E0 s + E3 s * E3 s - 0.5)\<rparr>;
         s = s\<lparr>f11 := 2 * (F0 s * F0 s + F1 s * F1 s - 0.5)\<rparr>;
         s = s\<lparr>f12 := 2 * (F0 s * F3 s + F1 s * F2 s)\<rparr>;
         s = s\<lparr>f13 := 2 * (- F0 s * F2 s + F1 s * F3 s)\<rparr>;
         s = s\<lparr>f21 := 2 * (- F0 s * F3 s + F2 s * F1 s)\<rparr>;
         s = s\<lparr>f22 := 2 * (F0 s * F0 s + F2 s * F2 s - 0.5)\<rparr>;
         s = s\<lparr>f23 := 2 * (F0 s * F1 s + F2 s * F3 s)\<rparr>;
         s = s\<lparr>f31 := 2 * (F0 s * F2 s + F3 s * F1 s)\<rparr>;
         s = s\<lparr>f32 := 2 * (- F0 s * F1 s + F3 s * F2 s)\<rparr>;
         s = s\<lparr>f33 := 2 * (F0 s * F0 s + F3 s * F3 s - 0.5)\<rparr>
     in s)"

text \<open>
  \<open>calcJacobianState\<close> has a pointer receiver and assigns to \<open>s.E0\<close> .. \<open>s.E3\<close>:
  it returns the Jacobian and the state it leaves behind.
\<close>

definition calcJacobianState :: "State \<Rightarrow> real \<Rightarrow> DenseMatrix \<times> State" where
  "calcJacobianState s0 t =
    (let dt = t - sT s0;
         jac = Eye 32;
         jac = SetAll jac [(0, 3, dt), (1, 4, dt), (2, 5, dt)];
         s = s0\<lparr>E0 := E0 s0 + 0.5 * dt * (- H1 s0 * E1 s0 - H2 s0 * E2 s0 - H3 s0 * E3 s0) * Deg\<rparr>;
         s = s\<lparr>E1 := E1 s + 0.5 * dt * (H1 s * E0 s + H2 s * E3 s - H3 s * E2 s) * Deg\<rparr>;
         s = s\<lparr>E2 := E2 s + 0.5 * dt * (- H1 s * E3 s + H2 s * E0 s + H3 s * E1 s) * Deg\<rparr>;
         s = s\<lparr>E3 := E3 s + 0.5 * dt * (H1 s * E2 s - H2 s * E1 s + H3 s * E0 s) * Deg\<rparr>;
         jac = SetAll jac
           [(6, 7, - 0.5 * dt * H1 s * Deg),
            (6, 8, - 0.5 * dt * H2 s * Deg),
            (6, 9, - 0.5 * dt * H3 s * Deg),
            (7, 6, 0.5 * dt * H1 s * Deg),
            (7, 8, - 0.5 * dt * H3 s * Deg),
            (7, 9, 0.5 * dt * H2 s * Deg),
            (8, 6, 0.5 * dt * H2 s * Deg),
            (8, 7, 0.5 * dt * H3 s * Deg),
            (8, 9, - 0.5 * dt * H1 s * Deg),
            (9, 6, 0.5 * dt * H3 s * Deg),
            (9, 7, - 0.5 * dt * H2 s * Deg),
            (9, 8, 0.5 * dt * H1 s * Deg)]
     in (jac, s))"

definition Predict :: "State \<Rightarrow> real \<Rightarrow> State" where
  "Predict s0 t =
    (let (f, s) = calcJacobianState s0 t;
         dt = t - sT s;
         s = s\<lparr>U1 := U1 s + dt * Z1 s / G\<rparr>;
         s = s\<lparr>U2 := U2 s + dt * Z2 s / G\<rparr>;
         s = s\<lparr>U3 := U3 s + dt * Z3 s / G\<rparr>;
         s = s\<lparr>E0 := E0 s + 0.5 * dt * (- H1 s * E1 s - H2 s * E2 s - H3 s * E3 s) * Deg\<rparr>;
         s = s\<lparr>E1 := E1 s + 0.5 * dt * (H1 s * E0 s + H2 s * E3 s - H3 s * E2 s) * Deg\<rparr>;
         s = s\<lparr>E2 := E2 s + 0.5 * dt * (- H1 s * E3 s + H2 s * E0 s + H3 s * E1 s) * Deg\<rparr>;
         s = s\<lparr>E3 := E3 s + 0.5 * dt * (H1 s * E2 s - H2 s * E1 s + H3 s * E0 s) * Deg\<rparr>;
         s = normalize_state s;
         s = s\<lparr>sT := t\<rparr>;
         s = s\<lparr>sM := SumM (ProductM f (ProductM (sM s) (TransposeM f))) (ScaledM (sN s) dt)\<rparr>
     in s)"

text \<open>
  \<open>PredictMeasurement\<close> normalizes its receiver before it reads it: it returns the
  predicted measurement and the state it leaves behind.
\<close>

definition PredictMeasurement :: "State \<Rightarrow> Measurement \<times> State" where
  "PredictMeasurement s0 =
    (let s = normalize_state s0;
         a1 = - Z1 s + (H2 s * U3 s - H3 s * U2 s) * Deg / G - e31 s;
         a2 = - Z2 s + (H3 s * U1 s - H1 s * U3 s) * Deg / G - e32 s;
         a3 = - Z3 s + (H1 s * U2 s - H2 s * U1 s) * Deg / G - e33 s;
         m1 = N1 s * e11 s + N2 s * e21 s + N3 s * e31 s + L1 s;
         m2 = N1 s * e12 s + N2 s * e22 s + N3 s * e32 s + L2 s;
         m3 = N1 s * e13 s + N2 s * e23 s + N3 s * e33 s + L3 s
     in (\<lparr>m_UValid = True, m_WValid = True, m_SValid = True, m_MValid = True,
          m_U1 = U1 s,
          m_U2 = U2 s,
          m_U3 = U3 s,
          m_W1 = e11 s * U1 s + e12 s * U2 s + e13 s * U3 s + V1 s,
          m_W2 = e21 s * U1 s + e22 s * U2 s + e23 s * U3 s + V2 s,
          m_W3 = e31 s * U1 s + e32 s * U2 s + e33 s * U3 s + V3 s,
          m_A1 = a1 * f11 s + a2 * f21 s + a3 * f31 s + C1 s,
          m_A2 = a1 * f12 s + a2 * f22 s + a3 * f32 s + C2 s,
          m_A3 = a1 * f13 s + a2 * f23 s + a3 * f33 s + C3 s,
          m_B1 = H1 s * f11 s + H2 s * f21 s + H3 s * f31 s + D1 s,
          m_B2 = H1 s * f12 s + H2 s * f22 s + H3 s * f32 s + D2 s,
          m_B3 = H1 s * f13 s + H2 s * f23 s + H3 s * f33 s + D3 s,
          m_M1 = f11 s * m1 + f21 s * m2 + f31 s * m3 + L1 s,
          m_M2 = f12 s * m1 + f22 s * m2 + f32 s * m3 + L2 s,
          m_M3 = f13 s * m1 + f23 s * m2 + f33 s * m3 + L3 s,
          m_T = sT s,
          m_M = None\<rparr>, s))"

definition calcJacobianMeasurement :: "State \<Rightarrow> DenseMatrix" where
  "calcJacobianMeasurement s =
    (let a1 = - Z1 s + (H2 s * U3 s - H3 s * U2 s) * Deg / G - e31 s;
         a2 = - Z2 s + (H3 s * U1 s - H1 s * U3 s) * Deg / G - e32 s;
         a3 = - Z3 s + (H1 s * U2 s - H2 s * U1 s) * Deg / G - e33 s
     in SetAll (Zeros 15 32)
       [
        (0, 0, 1),
        (1, 1, 1),
        (2, 2, 1),
        (3, 0, e11 s),
        (3, 1, e12 s),
        (3, 2, e13 s),
        (3, 6, 2 * (E0 s * U1 s - E3 s * U2 s + E2 s * U3 s)),
        (3, 7, 2 * (E1 s * U1 s + E2 s * U2 s + E3 s * U3 s)),
        (3, 8, 2 * (- E2 s * U1 s + E1 s * U2 s + E0 s * U3 s)),
        (3, 9, 2 * (- E3 s * U1 s - E0 s * U2 s + E1 s * U3 s)),
        (3, 16, 1),
        (4, 0, e21 s),
        (4, 1, e22 s),
        (4, 2, e23 s),
        (4, 6, 2 * (E3 s * U1 s + E0 s * U2 s - E1 s * U3 s)),
        (4, 7, 2 * (E2 s * U1 s - E1 s * U2 s - E0 s * U3 s)),
        (4, 8, 2 * (E1 s * U1 s + E2 s * U2 s + E3 s * U3 s)),
        (4, 9, 2 * (E0 s * U1 s - E3 s * U2 s + E2 s * U3 s)),
        (4, 17, 1),
        (5, 0, e31 s),
        (5, 1, e32 s),
        (5, 2, e33 s),
        (5, 6, 2 * (- E2 s * U1 s + E1 s * U2 s + E0 s * U3 s)),
        (5, 7, 2 * (E3 s * U1 s + E0 s * U2 s - E1 s * U3 s)),
        (5, 8, 2 * (- E0 s * U1 s + E3 s * U2 s - E2 s * U3 s)),
        (5, 9, 2 * (E1 s * U1 s + E2 s * U2 s + E3 s * U3 s)),
        (5, 18, 1),
        (6, 0, (H3 s * f21 s - H2 s * f31 s) * Deg / G),
        (6, 1, (H1 s * f31 s - H3 s * f11 s) * Deg / G),
        (6, 2, (H2 s * f11 s - H1 s * f21 s) * Deg / G),
        (6, 3, - f11 s),
        (6, 4, - f21 s),
        (6, 5, - f31 s),
        (6, 6, - 2 * (- E2 s * f11 s + E1 s * f21 s + E0 s * f31 s)),
        (6, 7, - 2 * (E3 s * f11 s + E0 s * f21 s - E1 s * f31 s)),
        (6, 8, - 2 * (- E0 s * f11 s + E3 s * f21 s - E2 s * f31 s)),
        (6, 9, - 2 * (E1 s * f11 s + E2 s * f21 s + E3 s * f31 s)),
        (6, 10, (U2 s * f31 s - U3 s * f21 s) * Deg / G),
        (6, 11, (U3 s * f11 s - U1 s * f31 s) * Deg / G),
        (6, 12, (U1 s * f21 s - U2 s * f11 s) * Deg / G),
        (6, 19, 1),
        (6, 22, 2 * (F0 s * a1 + F3 s * a2 - F2 s * a3)),
        (6, 23, 2 * (F1 s * a1 + F2 s * a2 + F3 s * a3)),
        (6, 24, 2 * (- F2 s * a1 + F1 s * a2 - F0 s * a3)),
        (6, 25, 2 * (- F3 s * a1 + F0 s * a2 + F1 s * a3)),
        (7, 0, (H3 s * f22 s - H2 s * f32 s) * Deg / G),
        (7, 1, (H1 s * f32 s - H3 s * f12 s) * Deg / G),
        (7, 2, (H2 s * f12 s - H1 s * f22 s) * Deg / G),
        (7, 3, - f12 s),
        (7, 4, - f22 s),
        (7, 5, - f32 s),
        (7, 6, - 2 * (- E2 s * f12 s + E1 s * f22 s + E0 s * f32 s)),
        (7, 7, - 2 * (E3 s * f12 s + E0 s * f22 s - E1 s * f32 s)),
        (7, 8, - 2 * (- E0 s * f12 s + E3 s * f22 s - E2 s * f32 s)),
        (7, 9, - 2 * (E1 s * f12 s + E2 s * f22 s + E3 s * f32 s)),
        (7, 10, (U2 s * f32 s - U3 s * f22 s) * Deg / G),
        (7, 11, (U3 s * f12 s - U1 s * f32 s) * Deg / G),
        (7, 12, (U1 s * f22 s - U2 s * f12 s) * Deg / G),
        (7, 20, 1),
        (7, 22, 2 * (- F3 s * a1 + F0 s * a2 + F1 s * a3)),
        (7, 23, 2 * (F2 s * a1 - F1 s * a2 + F0 s * a3)),
        (7, 24, 2 * (F1 s * a1 + F2 s * a2 + F3 s * a3)),
        (7, 25, 2 * (- F0 s * a1 - F3 s * a2 + F2 s * a3)),
        (8, 0, (H3 s * f23 s - H2 s * f33 s) * Deg / G),
        (8, 1, (H1 s * f33 s - H3 s * f13 s) * Deg / G),
        (8, 2, (H2 s * f13 s - H1 s * f23 s) * Deg / G),
        (8, 3, - f13 s),
        (8, 4, - f23 s),
        (8, 5, - f33 s),
        (8, 6, - 2 * (- E2 s * f13 s + E1 s * f23 s + E0 s * f33 s)),
        (8, 7, - 2 * (E3 s * f13 s + E0 s * f23 s - E1 s * f33 s)),
        (8, 8, - 2 * (- E0 s * f13 s + E3 s * f23 s - E2 s * f33 s)),
        (8, 9, - 2 * (E1 s * f13 s + E2 s * f23 s + E3 s * f33 s)),
        (8, 10, (U2 s * f33 s - U3 s * f23 s) * Deg / G),
        (8, 11, (U3 s * f13 s - U1 s * f33 s) * Deg / G),
        (8, 12, (U1 s * f23 s - U2 s * f13 s) * Deg / G),
        (8, 21, 1),
        (8, 22, 2 * (F2 s * a1 - F1 s * a2 + F0 s * a3)),
        (8, 23, 2 * (F3 s * a1 - F0 s * a2 - F1 s * a3)),
        (8, 24, 2 * (F0 s * a1 + F3 s * a2 - F2 s * a3)),
        (8, 25, 2 * (F1 s * a1 + F2 s * a2 + F3 s * a3)),
        (9, 10, f11 s),
        (9, 11, f21 s),
        (9, 12, f31 s),
        (9, 26, 1),
        (10, 10, f12 s),
        (10, 11, f22 s),
        (10, 12, f32 s),
        (10, 27, 1),
        (11, 10, f13 s),
        (11, 11, f23 s),
        (11, 12, f33 s),
        (11, 28, 1)])"

text \<open>
  The part of \<open>Update\<close> that fills the diagonal of the measurement noise \<open>m.M\<close> and
  clears the innovation \<open>y\<close> of the sensor groups that are not valid (the four
  \<open>if\<close> statements on the validity flags, and the two unconditional assignments
  between the first and the second).
\<close>

definition Update_noise :: "Measurement \<Rightarrow> DenseMatrix \<times> DenseMatrix \<Rightarrow> DenseMatrix \<times> DenseMatrix" where
  "Update_noise m yR =
    (let (y, R) = yR;
         (y, R) = (if m_UValid m then (y, SetM R 0 0 2)
                   else (SetM y 0 0 0, SetM R 0 0 Big));
         R = SetAll R [(1, 1, 25), (2, 2, 25)];
         (y, R) = (if m_WValid m then (y, SetAll R [(3, 3, 0.2), (4, 4, 0.2), (5, 5, 0.2)])
                   else (SetAll y [(3, 0, 0), (4, 0, 0), (5, 0, 0)],
                         SetAll R [(3, 3, Big), (4, 4, Big), (5, 5, Big)]));
         (y, R) = (if m_SValid m
                   then (y, SetAll R [(6, 6, 0.2), (7, 7, 0.2), (8, 8, 0.2),
                                      (9, 9, 1), (10, 10, 1), (11, 11, 1)])
                   else (SetAll y [(6, 0, 0), (7, 0, 0), (8, 0, 0), (9, 0, 0), (10, 0, 0), (11, 0, 0)],
                         SetAll R [(6, 6, Big), (7, 7, Big), (8, 8, Big),
                                   (9, 9, Big), (10, 10, Big), (11, 11, Big)]));
         (y, R) = (if m_MValid m then (y, SetAll R [(12, 12, 5), (13, 13, 5), (14, 14, 5)])
                   else (SetAll y [(12, 0, 0), (13, 0, 0), (14, 0, 0)],
                         SetAll R [(12, 12, Big), (13, 13, Big), (14, 14, Big)]))
     in (y, R))"

text \<open>The innovation \<open>y\<close> of \<open>Update\<close> as first filled, before any entry is cleared.\<close>

definition Update_innovation :: "Measurement \<Rightarrow> Measurement \<Rightarrow> DenseMatrix" where
  "Update_innovation m z =
     SetAll (Zeros 15 1)
       [(0, 0, m_U1 m - m_U1 z), (1, 0, m_U2 m - m_U2 z), (2, 0, m_U3 m - m_U3 z),
        (3, 0, m_W1 m - m_W1 z), (4, 0, m_W2 m - m_W2 z), (5, 0, m_W3 m - m_W3 z),
        (6, 0, m_A1 m - m_A1 z), (7, 0, m_A2 m - m_A2 z), (8, 0, m_A3 m - m_A3 z),
        (9, 0, m_B1 m - m_B1 z), (10, 0, m_B2 m - m_B2 z), (11, 0, m_B3 m - m_B3 z),
        (12, 0, m_M1 m - m_M1 z), (13, 0, m_M2 m - m_M2 z), (14, 0, m_M3 m - m_M3 z)]"

text \<open>
  The correction of \<open>Update\<close>: the 32 additions of the entries of \<open>su\<close> to the state,
  the timestamp and the covariance, before the final \<open>normalize\<close>.
\<close>

definition Update_correct :: "State \<Rightarrow> Measurement \<Rightarrow> DenseMatrix \<Rightarrow> DenseMatrix \<Rightarrow> DenseMatrix \<Rightarrow> State" where
  "Update_correct s m kk h su =
     s\<lparr>U1 := U1 s + GetM su 0 0, U2 := U2 s + GetM su 1 0, U3 := U3 s + GetM su 2 0,
       Z1 := Z1 s + GetM su 3 0, Z2 := Z2 s + GetM su 4 0, Z3 := Z3 s + GetM su 5 0,
       E0 := E0 s + GetM su 6 0, E1 := E1 s + GetM su 7 0,
       E2 := E2 s + GetM su 8 0, E3 := E3 s + GetM su 9 0,
       H1 := H1 s + GetM su 10 0, H2 := H2 s + GetM su 11 0, H3 := H3 s + GetM su 12 0,
       N1 := N1 s + GetM su 13 0, N2 := N2 s + GetM su 14 0, N3 := N3 s + GetM su 15 0,
       V1 := V1 s + GetM su 16 0, V2 := V2 s + GetM su 17 0, V3 := V3 s + GetM su 18 0,
       C1 := C1 s + GetM su 19 0, C2 := C2 s + GetM su 20 0, C3 := C3 s + GetM su 21 0,
       F0 := F0 s + GetM su 22 0, F1 := F1 s + GetM su 23 0,
       F2 := F2 s + GetM su 24 0, F3 := F3 s + GetM su 25 0,
       D1 := D1 s + GetM su 26 0, D2 := D2 s + GetM su 27 0, D3 := D3 s + GetM su 28 0,
       L1 := L1 s + GetM su 29 0, L2 := L2 s + GetM su 30 0, L3 := L3 s + GetM su 31 0,
       sT := m_T m,
       sM := ProductM (DifferenceM (Eye 32) (ProductM kk h)) (sM s)\<rparr>"

text \<open>
  The matrix \<open>ss\<close> that \<open>Update\<close> hands to \<open>Inverse\<close>, for the receiver \<open>s0\<close> and an
  argument \<open>m\<close> whose matrix \<open>m.M\<close> is \<open>R0\<close>.
\<close>

definition Update_ss :: "State \<Rightarrow> Measurement \<Rightarrow> DenseMatrix \<Rightarrow> DenseMatrix" where
  "Update_ss s0 m R0 =
    (let (z, s) = PredictMeasurement s0;
         y = Update_innovation m z;
         h = calcJacobianMeasurement s;
         (y, R) = Update_noise m (y, R0)
     in SumM (ProductM h (ProductM (sM s) (TransposeM h))) R)"

text \<open>
  \<open>Update\<close> changes its receiver and the matrix of its argument, and may write a line
  to the log: it returns the three. \<open>Inverse\<close> is the matrix package's inversion,
  \<open>None\<close> when it returns an error. A nil \<open>m.M\<close> is a nil pointer dereference.

  \<open>Update_core\<close> is \<open>Update\<close> without its last statement, the call of
  \<open>normalize\<close>; it also tells whether it returned early.
\<close>

datatype applied = Skipped | Corrected

definition Update_core ::
  "(DenseMatrix \<Rightarrow> DenseMatrix option) \<Rightarrow> State \<Rightarrow> Measurement
     \<Rightarrow> fault + (State \<times> Measurement \<times> string list \<times> applied)" where
  "Update_core Inverse s0 m =
    (let (z, s) = PredictMeasurement s0;
         y = Update_innovation m z;
         h = calcJacobianMeasurement s
     in case m_M m of
          None \<Rightarrow> Inl NilPointer
        | Some R0 \<Rightarrow>
            (let (y, R) = Update_noise m (y, R0);
                 m = m\<lparr>m_M := Some R\<rparr>;
                 ss = SumM (ProductM h (ProductM (sM s) (TransposeM h))) R
             in case Inverse ss of
                  None \<Rightarrow> Inr (s, m, [''AHRS: Can't invert Kalman gain matrix''], Skipped)
                | Some m2 \<Rightarrow>
                    (let kk = ProductM (sM s) (ProductM (TransposeM h) m2);
                         su = ProductM kk y;
                         s = Update_correct s m kk h su
                     in Inr (s, m, [], Corrected))))"

definition Update ::
  "(DenseMatrix \<Rightarrow> DenseMatrix option) \<Rightarrow> State \<Rightarrow> Measurement
     \<Rightarrow> fault + (State \<times> Measurement \<times> string list)" where
  "Update Inverse s0 m =
    (case Update_core Inverse s0 m of
       Inl e \<Rightarrow> Inl e
     | Inr (s, m, lg, Skipped) \<Rightarrow> Inr (s, m, lg)
     | Inr (s, m, lg, Corrected) \<Rightarrow> Inr (normalize_state s, m, lg))"

section \<open>Package ahrs: what the claims speak of\<close>

text \<open>A state whose scalars are all zero, with zero matrices of the filter's dimensions.\<close>

definition zero_state :: State where
  "zero_state =
    \<lparr>U1 = 0, U2 = 0, U3 = 0, Z1 = 0, Z2 = 0, Z3 = 0, E0 = 0, E1 = 0, E2 = 0, E3 = 0,
     H1 = 0, H2 = 0, H3 = 0, N1 = 0, N2 = 0, N3 = 0, V1 = 0, V2 = 0, V3 = 0,
     C1 = 0, C2 = 0, C3 = 0, F0 = 0, F1 = 0, F2 = 0, F3 = 0, D1 = 0, D2 = 0, D3 = 0,
     L1 = 0, L2 = 0, L3 = 0, sT = 0, sM = Zeros 32 32, sN = Zeros 32 32,
     e11 = 0, e12 = 0, e13 = 0, e21 = 0, e22 = 0, e23 = 0, e31 = 0, e32 = 0, e33 = 0,
     f11 = 0, f12 = 0, f13 = 0, f21 = 0, f22 = 0, f23 = 0, f31 = 0, f32 = 0, f33 = 0\<rparr>"

text \<open>A measurement whose scalars are all zero, no group valid, with a zero 15 by 15 matrix.\<close>

definition zero_measurement :: Measurement where
  "zero_measurement =
    \<lparr>m_UValid = False, m_WValid = False, m_SValid = False, m_MValid = False,
     m_U1 = 0, m_U2 = 0, m_U3 = 0, m_W1 = 0, m_W2 = 0, m_W3 = 0,
     m_A1 = 0, m_A2 = 0, m_A3 = 0, m_B1 = 0, m_B2 = 0, m_B3 = 0,
     m_M1 = 0, m_M2 = 0, m_M3 = 0, m_T = 0, m_M = Some (Zeros 15 15)\<rparr>"

type_synonym mat3 =
  "(real \<times> real \<times> real) \<times> (real \<times> real \<times> real) \<times> (real \<times> real \<times> real)"

text \<open>\<open>R\<close> times its transpose is the identity, and the determinant of \<open>R\<close> is 1.\<close>

fun is_rotation :: "mat3 \<Rightarrow> bool" where
  "is_rotation ((r11, r12, r13), (r21, r22, r23), (r31, r32, r33)) =
     (r11 * r11 + r12 * r12 + r13 * r13 = 1 \<and>
      r11 * r21 + r12 * r22 + r13 * r23 = 0 \<and>
      r11 * r31 + r12 * r32 + r13 * r33 = 0 \<and>
      r21 * r21 + r22 * r22 + r23 * r23 = 1 \<and>
      r21 * r31 + r22 * r32 + r23 * r33 = 0 \<and>
      r31 * r31 + r32 * r32 + r33 * r33 = 1 \<and>
      r11 * (r22 * r33 - r23 * r32) - r12 * (r21 * r33 - r23 * r31)
        + r13 * (r21 * r32 - r22 * r31) = 1)"

definition e_cache :: "State \<Rightarrow> mat3" where
  "e_cache s = ((e11 s, e12 s, e13 s), (e21 s, e22 s, e23 s), (e31 s, e32 s, e33 s))"

definition f_cache :: "State \<Rightarrow> mat3" where
  "f_cache s = ((f11 s, f12 s, f13 s), (f21 s, f22 s, f23 s), (f31 s, f32 s, f33 s))"

text \<open>
  The nine entries that the comment of \<open>normalize\<close> describes, from a quaternion: the
  formulae of the \<open>f\<close> block of \<open>normalize\<close>, which assigns all nine.
\<close>

definition rotation_cache :: "real \<Rightarrow> real \<Rightarrow> real \<Rightarrow> real \<Rightarrow> mat3" where
  "rotation_cache q0 q1 q2 q3 =
     ((2 * (q0 * q0 + q1 * q1 - 0.5), 2 * (q0 * q3 + q1 * q2), 2 * (- q0 * q2 + q1 * q3)),
      (2 * (- q0 * q3 + q2 * q1), 2 * (q0 * q0 + q2 * q2 - 0.5), 2 * (q0 * q1 + q2 * q3)),
      (2 * (q0 * q2 + q3 * q1), 2 * (- q0 * q1 + q3 * q2), 2 * (q0 * q0 + q3 * q3 - 0.5)))"

definition normE :: "State \<Rightarrow> real" where
  "normE s = sqrt (E0 s * E0 s + E1 s * E1 s + E2 s * E2 s + E3 s * E3 s)"

definition normF :: "State \<Rightarrow> real" where
  "normF s = sqrt (F0 s * F0 s + F1 s * F1 s + F2 s * F2 s + F3 s * F3 s)"

text \<open>The state scalars other than the two quaternions and the airspeed.\<close>

definition biases :: "State \<Rightarrow> real list" where
  "biases s = [Z1 s, Z2 s, Z3 s, H1 s, H2 s, H3 s, N1 s, N2 s, N3 s, V1 s, V2 s, V3 s,
               C1 s, C2 s, C3 s, D1 s, D2 s, D3 s, L1 s, L2 s, L3 s]"

text \<open>The 32 state scalars, in the order of the covariance matrix.\<close>

definition scalars :: "State \<Rightarrow> real list" where
  "scalars s = [U1 s, U2 s, U3 s, Z1 s, Z2 s, Z3 s, E0 s, E1 s, E2 s, E3 s,
                H1 s, H2 s, H3 s, N1 s, N2 s, N3 s, V1 s, V2 s, V3 s, C1 s, C2 s, C3 s,
                F0 s, F1 s, F2 s, F3 s, D1 s, D2 s, D3 s, L1 s, L2 s, L3 s]"

text \<open>
  The prediction as the specification words it: one Euler step of the quaternion from
  the values before the call, then the normalization; the airspeed moves by
  \<open>dt * Z / G\<close>, the time is set.
\<close>

definition Predict_claimed_E :: "State \<Rightarrow> real \<Rightarrow> real \<times> real \<times> real \<times> real" where
  "Predict_claimed_E s t =
    (let dt = t - sT s;
         q0 = E0 s + 0.5 * dt * (- H1 s * E1 s - H2 s * E2 s - H3 s * E3 s) * Deg;
         q1 = E1 s + 0.5 * dt * (H1 s * E0 s + H2 s * E3 s - H3 s * E2 s) * Deg;
         q2 = E2 s + 0.5 * dt * (- H1 s * E3 s + H2 s * E0 s + H3 s * E1 s) * Deg;
         q3 = E3 s + 0.5 * dt * (H1 s * E2 s - H2 s * E1 s + H3 s * E0 s) * Deg;
         n = sqrt (q0 * q0 + q1 * q1 + q2 * q2 + q3 * q3)
     in (q0 / n, q1 / n, q2 / n, q3 / n))"

text \<open>
  The magnetometer prediction as the specification words it: \<open>N\<close> taken to the aircraft
  frame by the rotation of \<open>E\<close>, then to the sensor frame by the rotation of \<open>F\<close>, then
  the bias \<open>L\<close> added once. The index pattern of each rotation is the one
  \<open>PredictMeasurement\<close> uses.
\<close>

definition magnetometer_claimed :: "State \<Rightarrow> real \<times> real \<times> real" where
  "magnetometer_claimed s =
    (case (rotation_cache (E0 s) (E1 s) (E2 s) (E3 s), rotation_cache (F0 s) (F1 s) (F2 s) (F3 s)) of
       (((r11, r12, r13), (r21, r22, r23), (r31, r32, r33)),
        ((g11, g12, g13), (g21, g22, g23), (g31, g32, g33))) \<Rightarrow>
         (let m1 = N1 s * r11 + N2 s * r21 + N3 s * r31;
              m2 = N1 s * r12 + N2 s * r22 + N3 s * r32;
              m3 = N1 s * r13 + N2 s * r23 + N3 s * r33
          in (g11 * m1 + g21 * m2 + g31 * m3 + L1 s,
              g12 * m1 + g22 * m2 + g32 * m3 + L2 s,
              g13 * m1 + g23 * m2 + g33 * m3 + L3 s)))"

text \<open>
  The four assignments to \<open>s.E0\<close> .. \<open>s.E3\<close> that \<open>calcJacobianState\<close> and \<open>Predict\<close>
  both make, as a function on the quadruple: each assignment reads the components
  assigned before it. \<open>unit_of\<close> is the division by the norm that \<open>normalize\<close> makes.
\<close>

definition Euler_pass ::
  "real \<Rightarrow> real \<times> real \<times> real \<Rightarrow> real \<times> real \<times> real \<times> real \<Rightarrow> real \<times> real \<times> real \<times> real" where
  "Euler_pass dt h q =
    (case (h, q) of
       ((h1, h2, h3), (a, b, c, d)) \<Rightarrow>
         (let a = a + 0.5 * dt * (- h1 * b - h2 * c - h3 * d) * Deg;
              b = b + 0.5 * dt * (h1 * a + h2 * d - h3 * c) * Deg;
              c = c + 0.5 * dt * (- h1 * d + h2 * a + h3 * b) * Deg;
              d = d + 0.5 * dt * (h1 * c - h2 * b + h3 * a) * Deg
          in (a, b, c, d)))"

definition unit_of :: "real \<times> real \<times> real \<times> real \<Rightarrow> real \<times> real \<times> real \<times> real" where
  "unit_of q =
    (case q of
       (a, b, c, d) \<Rightarrow>
         (a / sqrt (a * a + b * b + c * c + d * d), b / sqrt (a * a + b * b + c * c + d * d),
          c / sqrt (a * a + b * b + c * c + d * d), d / sqrt (a * a + b * b + c * c + d * d)))"

text \<open>
  An inversion routine to run \<open>Update\<close> with: the inverse of a diagonal matrix with no
  zero on its diagonal, and an error for every other matrix.
\<close>

definition Inverse_diagonal :: "DenseMatrix \<Rightarrow> DenseMatrix option" where
  "Inverse_diagonal A =
    (if rows A = cols A
        \<and> (\<forall>i<rows A. \<forall>j<cols A. elements A i j = (if i = j then elements A i i else 0))
        \<and> (\<forall>i<rows A. elements A i i \<noteq> 0)
     then Some \<lparr>rows = rows A, cols = cols A,
                elements = (\<lambda>i j. if i = j \<and> i < rows A then 1 / elements A i i else 0)\<rparr>
     else None)"

definition quatE :: "State \<Rightarrow> real \<times> real \<times> real \<times> real" where
  "quatE s = (E0 s, E1 s, E2 s, E3 s)"

definition quatF :: "State \<Rightarrow> real \<times> real \<times> real \<times> real" where
  "quatF s = (F0 s, F1 s, F2 s, F3 s)"

text \<open>Entries of the diagonal of a matrix, and of its first column.\<close>

definition diag_entries :: "DenseMatrix \<Rightarrow> nat list \<Rightarrow> real list" where
  "diag_entries R ks = map (\<lambda>k. GetM R k k) ks"

definition column_entries :: "DenseMatrix \<Rightarrow> nat list \<Rightarrow> real list" where
  "column_entries y ks = map (\<lambda>k. GetM y k 0) ks"

text \<open>The inputs at which the theorems below evaluate the filter.\<close>

definition level_state :: State where
  "level_state = zero_state\<lparr>E0 := 1, F0 := 1\<rparr>"

definition C1_state :: State where
  "C1_state = zero_state\<lparr>E0 := 3 / 5, E3 := 4 / 5, F0 := 1\<rparr>"

definition C2_state :: State where
  "C2_state = level_state\<lparr>H1 := 1\<rparr>"

definition C3_state :: State where
  "C3_state = level_state\<lparr>N1 := 3, L1 := 1\<rparr>"

definition C4_state :: State where
  "C4_state = zero_state\<lparr>E0 := 1\<rparr>"

text \<open>The diagonal that \<open>Update\<close> gives the noise matrix when no group is valid.\<close>

definition C4_noise :: DenseMatrix where
  "C4_noise =
     SetAll (Zeros 15 15)
       [(0, 0, Big), (1, 1, 25), (2, 2, 25), (3, 3, Big), (4, 4, Big), (5, 5, Big),
        (6, 6, Big), (7, 7, Big), (8, 8, Big), (9, 9, Big), (10, 10, Big), (11, 11, Big),
        (12, 12, Big), (13, 13, Big), (14, 14, Big)]"

text \<open>
  A level state that is sure of everything but \<open>E0\<close> (variance 1), and a measurement
  with every group valid that agrees with its prediction except for an accelerometer
  reading \<open>A3\<close> of 1.1 against the predicted -1.
\<close>

definition C4_unsure_state :: State where
  "C4_unsure_state = level_state\<lparr>sM := SetM (Zeros 32 32) 6 6 1\<rparr>"

definition C4_measurement :: Measurement where
  "C4_measurement =
     zero_measurement\<lparr>m_UValid := True, m_WValid := True, m_SValid := True, m_MValid := True,
       m_A3 := 11 / 10\<rparr>"

text \<open>
  The noise matrix that \<open>Update\<close> builds for it from a zero matrix, and the matrix
  \<open>ss\<close> that it inverts.
\<close>

definition C4_valid_noise :: DenseMatrix where
  "C4_valid_noise =
     SetAll (Zeros 15 15)
       [(0, 0, 2), (1, 1, 25), (2, 2, 25), (3, 3, 0.2), (4, 4, 0.2), (5, 5, 0.2),
        (6, 6, 0.2), (7, 7, 0.2), (8, 8, 0.2), (9, 9, 1), (10, 10, 1), (11, 11, 1),
        (12, 12, 5), (13, 13, 5), (14, 14, 5)]"

definition C4_ss :: DenseMatrix where
  "C4_ss =
     SumM (ProductM (calcJacobianMeasurement (normalize_state C4_unsure_state))
             (ProductM (sM (normalize_state C4_unsure_state))
                (TransposeM (calcJacobianMeasurement (normalize_state C4_unsure_state)))))
       C4_valid_noise"

text \<open>
  A measurement whose noise matrix arrives with the errors of \<open>U2\<close> and \<open>U3\<close> fully
  correlated, and the noise matrix that \<open>Update\<close> makes of it when no group is valid.
\<close>

definition C5_noise :: DenseMatrix where
  "C5_noise =
     SetAll (SetAll (Zeros 15 15) [(1, 2, 25), (2, 1, 25)])
       [(0, 0, Big), (1, 1, 25), (2, 2, 25), (3, 3, Big), (4, 4, Big), (5, 5, Big),
        (6, 6, Big), (7, 7, Big), (8, 8, Big), (9, 9, Big), (10, 10, Big), (11, 11, Big),
        (12, 12, Big), (13, 13, Big), (14, 14, Big)]"

definition C5_measurement :: Measurement where
  "C5_measurement =
     zero_measurement\<lparr>m_M := Some (SetAll (Zeros 15 15) [(1, 2, 25), (2, 1, 25)])\<rparr>"

definition C6_measurement :: Measurement where
  "C6_measurement = zero_measurement\<lparr>m_U2 := 7\<rparr>"

section \<open>Program sim: quaternions and angles\<close>

text \<open>
  \<open>math.Atan2(y, x)\<close> and \<open>math.Asin\<close> of the Go library, on real numbers: the angle
  of the point \<open>(x, y)\<close> in the interval from \<open>-pi\<close> (excluded) to \<open>pi\<close>, and the arc
  sine, which the library defines on \<open>[-1, 1]\<close>.
\<close>

definition atan2 :: "real \<Rightarrow> real \<Rightarrow> real" where
  "atan2 y x =
    (if 0 < x then arctan (y / x)
     else if x < 0 then (if 0 \<le> y then arctan (y / x) + pi else arctan (y / x) - pi)
     else if 0 < y then pi / 2
     else if y < 0 then - pi / 2
     else 0)"

definition asin :: "real \<Rightarrow> real" where
  "asin x = arcsin x"

definition ToQuaternion :: "real \<Rightarrow> real \<Rightarrow> real \<Rightarrow> real \<times> real \<times> real \<times> real" where
  "ToQuaternion phi0 theta psi0 =
    (let phi = - phi0;
         psi = psi0 - pi / 2;
         cphi = cos (phi / 2);
         sphi = sin (phi / 2);
         ctheta = cos (theta / 2);
         stheta = sin (theta / 2);
         cpsi = cos (psi / 2);
         spsi = sin (psi / 2);
         q0 = cphi * ctheta * cpsi - sphi * stheta * spsi;
         q1 = sphi * ctheta * cpsi + cphi * stheta * spsi;
         q2 = cphi * stheta * cpsi - sphi * ctheta * spsi;
         q3 = cphi * ctheta * spsi + sphi * stheta * cpsi
     in (q0, q1, q2, q3))"

definition FromQuaternion :: "real \<Rightarrow> real \<Rightarrow> real \<Rightarrow> real \<Rightarrow> real \<times> real \<times> real" where
  "FromQuaternion q0 q1 q2 q3 =
    (let phi = atan2 (- 2 * (q0 * q1 - q2 * q3)) (q0 * q0 - q1 * q1 - q2 * q2 + q3 * q3);
         theta = asin (2 * (q0 * q2 + q3 * q1) / sqrt (q0 * q0 + q1 * q1 + q2 * q2 + q3 * q3));
         psi = pi / 2 + atan2 (2 * (q0 * q3 - q1 * q2)) (q0 * q0 + q1 * q1 - q2 * q2 - q3 * q3);
         psi = (if psi < - (1 / 10000) then psi + 2 * pi else psi)
     in (phi, theta, psi))"

section \<open>Program sim: the scenario\<close>

record Situation =
  sit_t :: "real list"
  sit_u1 :: "real list"  sit_u2 :: "real list"  sit_u3 :: "real list"
  sit_phi :: "real list"  sit_theta :: "real list"  sit_psi :: "real list"
  sit_phi0 :: "real list"  sit_theta0 :: "real list"  sit_psi0 :: "real list"
  sit_v1 :: "real list"  sit_v2 :: "real list"  sit_v3 :: "real list"
  sit_m1 :: "real list"  sit_m2 :: "real list"  sit_m3 :: "real list"

text \<open>
  The simulator is written against a version of package ahrs whose \<open>State\<close> and
  \<open>Measurement\<close> are not those of \<open>ahrs.go\<close> (a state has \<open>M1\<close>, \<open>M2\<close>, \<open>M3\<close> and
  a \<open>uint32\<close> time in milliseconds); their declarations are not among the sources.
  The records below have the fields that the simulator assigns and reads; the matrix
  field, always the empty \<open>matrix.DenseMatrix{}\<close>, is left out.
\<close>

record SimState =
  x_U1 :: real  x_U2 :: real  x_U3 :: real
  x_E0 :: real  x_E1 :: real  x_E2 :: real  x_E3 :: real
  x_F0 :: real  x_F1 :: real  x_F2 :: real  x_F3 :: real
  x_V1 :: real  x_V2 :: real  x_V3 :: real
  x_M1 :: real  x_M2 :: real  x_M3 :: real
  x_T :: "32 word"

record SimMeasurement =
  w_W1 :: real  w_W2 :: real  w_W3 :: real
  w_M1 :: real  w_M2 :: real  w_M3 :: real
  w_U1 :: real  w_U2 :: real  w_U3 :: real
  w_T :: "32 word"

definition zero_SimState :: SimState where
  "zero_SimState =
    \<lparr>x_U1 = 0, x_U2 = 0, x_U3 = 0, x_E0 = 0, x_E1 = 0, x_E2 = 0, x_E3 = 0,
     x_F0 = 0, x_F1 = 0, x_F2 = 0, x_F3 = 0, x_V1 = 0, x_V2 = 0, x_V3 = 0,
     x_M1 = 0, x_M2 = 0, x_M3 = 0, x_T = 0\<rparr>"

definition zero_SimMeasurement :: SimMeasurement where
  "zero_SimMeasurement =
    \<lparr>w_W1 = 0, w_W2 = 0, w_W3 = 0, w_M1 = 0, w_M2 = 0, w_M3 = 0,
     w_U1 = 0, w_U2 = 0, w_U3 = 0, w_T = 0\<rparr>"

text \<open>
  What a query of the simulator can do besides returning: panic on an index out of
  range, or divide by zero in \<open>float64\<close>. The second is no panic in Go: the factor
  \<open>f\<close> is then NaN or infinite, and the interpolated fields of the returned state
  with it.
\<close>

datatype sim_fault = IndexOutOfRange | FloatZeroDivide

text \<open>A returned pair of a value and an error; \<open>None\<close> is the nil error.\<close>

type_synonym 'a returned = "sim_fault + ('a \<times> string option)"

text \<open>
  \<open>uint32(x)\<close> of a \<open>float64\<close>: the fraction is discarded. (Outside the range of
  \<open>uint32\<close> the result depends on the implementation; the model wraps.)
\<close>

definition uint32_of :: "real \<Rightarrow> 32 word" where
  "uint32_of x = word_of_int (if 0 \<le> x then \<lfloor>x\<rfloor> else \<lceil>x\<rceil>)"

text \<open>
  \<open>sort.Search(n, f)\<close> of the Go library, a binary search: the loop on \<open>i\<close> and \<open>j\<close>,
  and \<open>sort.SearchFloat64s(a, x)\<close>, which searches with \<open>a[i] >= x\<close>.
\<close>

function Search_loop :: "(nat \<Rightarrow> bool) \<Rightarrow> nat \<Rightarrow> nat \<Rightarrow> nat" where
  "Search_loop f i j =
    (if i < j
     then (let h = (i + j) div 2
           in if \<not> f h then Search_loop f (h + 1) j else Search_loop f i h)
     else i)"
  by pat_completeness auto
termination
  by (relation "measure (\<lambda>(f, i, j). j - i)") auto

definition SearchFloat64s :: "real list \<Rightarrow> real \<Rightarrow> nat" where
  "SearchFloat64s a x = Search_loop (\<lambda>i. a ! i \<ge> x) 0 (length a)"

text \<open>The per-keyframe slices of a scenario, and whether index \<open>i\<close> is in range in all.\<close>

definition slices :: "Situation \<Rightarrow> real list list" where
  "slices s = [sit_t s, sit_u1 s, sit_u2 s, sit_u3 s, sit_phi s, sit_theta s, sit_psi s,
               sit_phi0 s, sit_theta0 s, sit_psi0 s, sit_v1 s, sit_v2 s, sit_v3 s,
               sit_m1 s, sit_m2 s, sit_m3 s]"

definition indexable :: "Situation \<Rightarrow> int \<Rightarrow> bool" where
  "indexable s i = (0 \<le> i \<and> list_all (\<lambda>xs. i < int (length xs)) (slices s))"

text \<open>The expression \<open>f*xs[ix] + (1-f)*xs[ix+1]\<close> that \<open>interpolate\<close> writes for each field.\<close>

definition blend :: "real \<Rightarrow> real list \<Rightarrow> nat \<Rightarrow> real" where
  "blend f xs ix = f * xs ! ix + (1 - f) * xs ! (ix + 1)"

definition out_of_scenario :: string where
  "out_of_scenario = ''requested time is outside of scenario''"

definition interpolate :: "Situation \<Rightarrow> real \<Rightarrow> SimState returned" where
  "interpolate s t =
    (if sit_t s = [] then Inl IndexOutOfRange
     else if t < sit_t s ! 0 \<or> t > sit_t s ! (length (sit_t s) - 1)
     then Inr (zero_SimState, Some out_of_scenario)
     else
       (let ix = (if t > sit_t s ! 0 then int (SearchFloat64s (sit_t s) t) - 1 else 0)
        in if \<not> (indexable s ix \<and> indexable s (ix + 1)) then Inl IndexOutOfRange
           else
             (let i = nat ix
              in if sit_t s ! (i + 1) - sit_t s ! i = 0 then Inl FloatZeroDivide
                 else
                   (let f = (sit_t s ! (i + 1) - t) / (sit_t s ! (i + 1) - sit_t s ! i);
                        (e0, e1, e2, e3) =
                          ToQuaternion (blend f (sit_phi s) i) (blend f (sit_theta s) i)
                            (blend f (sit_psi s) i);
                        ee = sqrt (e0 * e0 + e1 * e1 + e2 * e2 + e3 * e3);
                        (f0, f1, f2, f3) =
                          ToQuaternion (blend f (sit_phi0 s) i) (blend f (sit_theta0 s) i)
                            (blend f (sit_psi0 s) i);
                        ff = sqrt (f0 * f0 + f1 * f1 + f2 * f2 + f3 * f3)
                    in Inr (\<lparr>x_U1 = blend f (sit_u1 s) i,
                             x_U2 = blend f (sit_u2 s) i,
                             x_U3 = blend f (sit_u3 s) i,
                             x_E0 = e0 / ee, x_E1 = e1 / ee, x_E2 = e2 / ee, x_E3 = e3 / ee,
                             x_F0 = f0 / ff, x_F1 = f1 / ff, x_F2 = f2 / ff, x_F3 = f3 / ff,
                             x_V1 = blend f (sit_v1 s) i,
                             x_V2 = blend f (sit_v2 s) i,
                             x_V3 = blend f (sit_v3 s) i,
                             x_M1 = blend f (sit_m1 s) i,
                             x_M2 = blend f (sit_m2 s) i,
                             x_M3 = blend f (sit_m3 s) i,
                             x_T = uint32_of (t * 1000 + 0.5)\<rparr>, None)))))"

text \<open>
  \<open>derivative\<close> discards the errors of its two calls of \<open>interpolate\<close> and uses the
  states they return; a panic of either ends it.
\<close>

definition derivative :: "Situation \<Rightarrow> real \<Rightarrow> SimState returned" where
  "derivative s t =
    (if sit_t s = [] then Inl IndexOutOfRange
     else if t < sit_t s ! 0 \<or> t > sit_t s ! (length (sit_t s) - 1)
     then Inr (zero_SimState, Some out_of_scenario)
     else
       (let ddt = 0.001;
            t0 = t;
            t1 = t + ddt;
            (t0, t1) = (if t1 > sit_t s ! (length (sit_t s) - 1)
                        then (sit_t s ! (length (sit_t s) - 1) - ddt,
                              sit_t s ! (length (sit_t s) - 1))
                        else (t0, t1))
        in case interpolate s t0 of
             Inl e \<Rightarrow> Inl e
           | Inr (s0, _) \<Rightarrow>
               (case interpolate s t1 of
                  Inl e \<Rightarrow> Inl e
                | Inr (s1, _) \<Rightarrow>
                    Inr (\<lparr>x_U1 = (x_U1 s1 - x_U1 s0) / ddt,
                          x_U2 = (x_U2 s1 - x_U2 s0) / ddt,
                          x_U3 = (x_U3 s1 - x_U3 s0) / ddt,
                          x_E0 = (x_E0 s1 - x_E0 s0) / ddt,
                          x_E1 = (x_E1 s1 - x_E1 s0) / ddt,
                          x_E2 = (x_E2 s1 - x_E2 s0) / ddt,
                          x_E3 = (x_E3 s1 - x_E3 s0) / ddt,
                          x_F0 = (x_F0 s1 - x_F0 s0) / ddt,
                          x_F1 = (x_F1 s1 - x_F1 s0) / ddt,
                          x_F2 = (x_F2 s1 - x_F2 s0) / ddt,
                          x_F3 = (x_F3 s1 - x_F3 s0) / ddt,
                          x_V1 = (x_V1 s1 - x_V1 s0) / ddt,
                          x_V2 = (x_V2 s1 - x_V2 s0) / ddt,
                          x_V3 = (x_V3 s1 - x_V3 s0) / ddt,
                          x_M1 = (x_M1 s1 - x_M1 s0) / ddt,
                          x_M2 = (x_M2 s1 - x_M2 s0) / ddt,
                          x_M3 = (x_M3 s1 - x_M3 s0) / ddt,
                          x_T = uint32_of (t * 1000 + 0.5)\<rparr>, None))))"

definition measurement :: "Situation \<Rightarrow> real \<Rightarrow> SimMeasurement returned" where
  "measurement s t =
    (if sit_t s = [] then Inl IndexOutOfRange
     else if t < sit_t s ! 0 \<or> t > sit_t s ! (length (sit_t s) - 1)
     then Inr (zero_SimMeasurement, Some out_of_scenario)
     else
       (case interpolate s t of
          Inl e \<Rightarrow> Inl e
        | Inr (x, _) \<Rightarrow>
            Inr (\<lparr>w_W1 = x_V1 x
                     + x_U1 x * 2 * (x_E0 x * x_E0 x + x_E1 x * x_E1 x - 0.5)
                     + x_U2 x * 2 * (x_E0 x * x_E3 x + x_E1 x * x_E2 x)
                     + x_U3 x * 2 * (- x_E0 x * x_E2 x + x_E1 x * x_E3 x),
                  w_W2 = x_V2 x
                     + x_U1 x * 2 * (- x_E0 x * x_E3 x + x_E2 x * x_E1 x)
                     + x_U2 x * 2 * (x_E0 x * x_E0 x + x_E2 x * x_E2 x - 0.5)
                     + x_U3 x * 2 * (x_E0 x * x_E1 x + x_E2 x * x_E3 x),
                  w_W3 = x_V3 x
                     + x_U1 x * 2 * (x_E0 x * x_E2 x + x_E3 x * x_E1 x)
                     + x_U2 x * 2 * (- x_E0 x * x_E1 x + x_E3 x * x_E2 x)
                     + x_U3 x * 2 * (x_E0 x * x_E0 x + x_E3 x * x_E3 x - 0.5),
                  w_M1 = x_M1 x * 2 * (x_E0 x * x_E0 x + x_E1 x * x_E1 x - 0.5)
                     + x_M2 x * 2 * (- x_E0 x * x_E3 x + x_E1 x * x_E2 x)
                     + x_M3 x * 2 * (x_E0 x * x_E2 x + x_E1 x * x_E3 x),
                  w_M2 = x_M1 x * 2 * (x_E0 x * x_E3 x + x_E2 x * x_E1 x)
                     + x_M2 x * 2 * (x_E0 x * x_E0 x + x_E2 x * x_E2 x - 0.5)
                     + x_M3 x * 2 * (- x_E0 x * x_E1 x + x_E2 x * x_E3 x),
                  w_M3 = x_M1 x * 2 * (- x_E0 x * x_E2 x + x_E3 x * x_E1 x)
                     + x_M2 x * 2 * (x_E0 x * x_E1 x + x_E3 x * x_E2 x)
                     + x_M3 x * 2 * (x_E0 x * x_E0 x + x_E3 x * x_E3 x - 0.5),
                  w_U1 = x_U1 x,
                  w_U2 = x_U2 x,
                  w_U3 = x_U3 x,
                  w_T = uint32_of (t * 1000 + 0.5)\<rparr>, None)))"

text \<open>
  The piecewise-linear interpolation at \<open>t\<close> between keyframes \<open>i\<close> and \<open>i + 1\<close>, as the
  specification words it: each vector component and each angle on the straight line
  through its two keyframe values.
\<close>

definition on_line :: "real list \<Rightarrow> real list \<Rightarrow> nat \<Rightarrow> real \<Rightarrow> real" where
  "on_line ts xs i t =
     xs ! i + (t - ts ! i) * (xs ! (i + 1) - xs ! i) / (ts ! (i + 1) - ts ! i)"

definition keyframe_interpolation :: "Situation \<Rightarrow> nat \<Rightarrow> real \<Rightarrow> SimState" where
  "keyframe_interpolation s i t =
    (case (ToQuaternion (on_line (sit_t s) (sit_phi s) i t) (on_line (sit_t s) (sit_theta s) i t)
             (on_line (sit_t s) (sit_psi s) i t),
           ToQuaternion (on_line (sit_t s) (sit_phi0 s) i t) (on_line (sit_t s) (sit_theta0 s) i t)
             (on_line (sit_t s) (sit_psi0 s) i t)) of
       ((e0, e1, e2, e3), (f0, f1, f2, f3)) \<Rightarrow>
         \<lparr>x_U1 = on_line (sit_t s) (sit_u1 s) i t,
          x_U2 = on_line (sit_t s) (sit_u2 s) i t,
          x_U3 = on_line (sit_t s) (sit_u3 s) i t,
          x_E0 = e0, x_E1 = e1, x_E2 = e2, x_E3 = e3,
          x_F0 = f0, x_F1 = f1, x_F2 = f2, x_F3 = f3,
          x_V1 = on_line (sit_t s) (sit_v1 s) i t,
          x_V2 = on_line (sit_t s) (sit_v2 s) i t,
          x_V3 = on_line (sit_t s) (sit_v3 s) i t,
          x_M1 = on_line (sit_t s) (sit_m1 s) i t,
          x_M2 = on_line (sit_t s) (sit_m2 s) i t,
          x_M3 = on_line (sit_t s) (sit_m3 s) i t,
          x_T = uint32_of (t * 1000 + 0.5)\<rparr>)"

text \<open>
  A scenario that \<open>interpolate\<close> can serve over its whole range: every slice has a value
  for every keyframe, there are at least two keyframes, the times do not decrease, and
  the first two times differ.
\<close>

definition scenario_ok :: "Situation \<Rightarrow> bool" where
  "scenario_ok s =
    (2 \<le> length (sit_t s)
     \<and> list_all (\<lambda>xs. length xs = length (sit_t s)) (slices s)
     \<and> sorted (sit_t s)
     \<and> sit_t s ! 0 < sit_t s ! 1)"

text \<open>The turn that the simulator defines: \<open>airspeed\<close>, \<open>bank\<close>, \<open>mush\<close> and \<open>sitTurnDef\<close>.\<close>

definition airspeed :: real where
  "airspeed = 120"

definition bank :: real where
  "bank = arctan ((2 * pi * airspeed) / (G * 120))"

definition mush :: real where
  "mush = - airspeed * sin (pi / 90) / cos bank"

definition sitTurnDef :: Situation where
  "sitTurnDef =
    \<lparr>sit_t = [0, 10, 15, 255, 260, 270],
     sit_u1 = [airspeed, airspeed, airspeed, airspeed, airspeed, airspeed],
     sit_u2 = [0, 0, 0, 0, 0, 0],
     sit_u3 = [0, 0, mush, mush, 0, 0],
     sit_phi = [0, 0, bank, bank, 0, 0],
     sit_theta = [0, 0, pi / 90, pi / 90, 0, 0],
     sit_psi = [0, 0, 0, 4 * pi, 4 * pi, 4 * pi],
     sit_phi0 = [0, 0, 0, 0, 0, 0],
     sit_theta0 = [0, 0, 0, 0, 0, 0],
     sit_psi0 = [pi / 2, pi / 2, pi / 2, pi / 2, pi / 2, pi / 2],
     sit_v1 = [3, 3, 3, 3, 3, 3],
     sit_v2 = [4, 4, 4, 4, 4, 4],
     sit_v3 = [0, 0, 0, 0, 0, 0],
     sit_m1 = [0, 0, 0, 0, 0, 0],
     sit_m2 = [0, 0, 0, 0, 0, 0],
     sit_m3 = [0, 0, 0, 0, 0, 0]\<rparr>"

text \<open>A scenario of one keyframe, and one whose first two keyframes have the same time.\<close>

definition one_keyframe :: Situation where
  "one_keyframe =
    \<lparr>sit_t = [0],
     sit_u1 = [120], sit_u2 = [0], sit_u3 = [0],
     sit_phi = [0], sit_theta = [0], sit_psi = [0],
     sit_phi0 = [0], sit_theta0 = [0], sit_psi0 = [0],
     sit_v1 = [0], sit_v2 = [0], sit_v3 = [0],
     sit_m1 = [0], sit_m2 = [0], sit_m3 = [0]\<rparr>"

definition step_keyframes :: Situation where
  "step_keyframes =
    \<lparr>sit_t = [0, 0],
     sit_u1 = [100, 120], sit_u2 = [0, 0], sit_u3 = [0, 0],
     sit_phi = [0, 0], sit_theta = [0, 0], sit_psi = [0, 0],
     sit_phi0 = [0, 0], sit_theta0 = [0, 0], sit_psi0 = [0, 0],
     sit_v1 = [0, 0], sit_v2 = [0, 0], sit_v3 = [0, 0],
     sit_m1 = [0, 0], sit_m2 = [0, 0], sit_m3 = [0, 0]\<rparr>"


section \<open>Package mpu9250: the accumulators and Read\<close>

text \<open>
  The fields of \<open>MPU9250\<close> carry the prefix \<open>mpu_\<close>; the bus and the mutex are left
  out. \<open>Read\<close> holds the mutex from its first statement to its last, and so does one
  pass of the loop of \<open>readMPURaw\<close>: each is one step on the record.
\<close>

record MPU9250 =
  mpu_scaleGyro :: real  mpu_scaleAccel :: real
  mpu_sampleRate :: int
  mpu_n :: real  mpu_nm :: real
  mpu_g1 :: "32 word"  mpu_g2 :: "32 word"  mpu_g3 :: "32 word"
  mpu_a1 :: "32 word"  mpu_a2 :: "32 word"  mpu_a3 :: "32 word"
  mpu_m1 :: "32 word"  mpu_m2 :: "32 word"  mpu_m3 :: "32 word"
  mpu_a01 :: "16 word"  mpu_a02 :: "16 word"  mpu_a03 :: "16 word"
  mpu_g01 :: "16 word"  mpu_g02 :: "16 word"  mpu_g03 :: "16 word"
  mpu_mcal1 :: "32 word"  mpu_mcal2 :: "32 word"  mpu_mcal3 :: "32 word"

text \<open>The named results of \<open>Read\<close>; \<open>None\<close> is the nil error.\<close>

record Reading =
  r_t :: "64 word"
  r_g1 :: real  r_g2 :: real  r_g3 :: real
  r_a1 :: real  r_a2 :: real  r_a3 :: real
  r_m1 :: real  r_m2 :: real  r_m3 :: real
  r_gaError :: "string option"
  r_magError :: "string option"

definition zero_Reading :: Reading where
  "zero_Reading =
    \<lparr>r_t = 0, r_g1 = 0, r_g2 = 0, r_g3 = 0, r_a1 = 0, r_a2 = 0, r_a3 = 0,
     r_m1 = 0, r_m2 = 0, r_m3 = 0, r_gaError = None, r_magError = None\<rparr>"

text \<open>\<open>float64(x)\<close> of an \<open>int32\<close>.\<close>

definition float64_of :: "32 word \<Rightarrow> real" where
  "float64_of x = real_of_int (sint x)"

text \<open>A line of the log: the format and its arguments.\<close>

type_synonym log_line = "string \<times> real list"

text \<open>
  \<open>Read\<close>. The constant \<open>USEMAG\<close> is declared in another file of the package and is
  a parameter, and so is the clock, \<open>time.Now().UnixNano()\<close>. The named results start
  at their zero values.
\<close>

definition Read :: "bool \<Rightarrow> 64 word \<Rightarrow> MPU9250 \<Rightarrow> Reading \<times> MPU9250 \<times> log_line list" where
  "Read USEMAG now m =
    (let r = zero_Reading;
         (r, lg) =
           (if mpu_n m > 0
            then (r\<lparr>r_g1 := float64_of (mpu_g1 m) / mpu_n m * mpu_scaleGyro m,
                     r_g2 := float64_of (mpu_g2 m) / mpu_n m * mpu_scaleGyro m,
                     r_g3 := float64_of (mpu_g3 m) / mpu_n m * mpu_scaleGyro m,
                     r_a1 := float64_of (mpu_a1 m) / mpu_n m * mpu_scaleAccel m,
                     r_a2 := float64_of (mpu_a2 m) / mpu_n m * mpu_scaleAccel m,
                     r_a3 := float64_of (mpu_a3 m) / mpu_n m * mpu_scaleAccel m,
                     r_gaError := None\<rparr>, [])
            else (r\<lparr>r_gaError := Some ''MPU9250 Read: error reading gyro/accel''\<rparr>,
                  [(''MPU error: %2.f values accumulated'', [mpu_n m])]));
         r = (if mpu_nm m > 0
              then r\<lparr>r_m1 := float64_of (mpu_m1 m) / mpu_nm m,
                      r_m2 := float64_of (mpu_m2 m) / mpu_nm m,
                      r_m3 := float64_of (mpu_m3 m) / mpu_nm m,
                      r_magError := None\<rparr>
              else if USEMAG
              then r\<lparr>r_magError := Some ''MPU9250 Read: error reading magnetometer''\<rparr>
              else r\<lparr>r_magError := None\<rparr>);
         r = r\<lparr>r_t := now\<rparr>;
         m = m\<lparr>mpu_g1 := 0, mpu_g2 := 0, mpu_g3 := 0\<rparr>;
         m = m\<lparr>mpu_a1 := 0, mpu_a2 := 0, mpu_a3 := 0\<rparr>;
         m = m\<lparr>mpu_m1 := 0, mpu_m2 := 0, mpu_m3 := 0\<rparr>;
         m = m\<lparr>mpu_n := 0, mpu_nm := 0\<rparr>
     in (r, m, lg))"

text \<open>
  One pass of the loop of \<open>readMPURaw\<close> in which the six gyro and accelerometer
  registers are read without error: the statements up to the label \<open>readMagData\<close>.
  The difference of two \<open>int16\<close> wraps, \<open>int32\<close> of it extends the sign.
\<close>

record Sample =
  raw_g1 :: "16 word"  raw_g2 :: "16 word"  raw_g3 :: "16 word"
  raw_a1 :: "16 word"  raw_a2 :: "16 word"  raw_a3 :: "16 word"

definition accumulate :: "MPU9250 \<Rightarrow> Sample \<Rightarrow> MPU9250" where
  "accumulate m x =
     m\<lparr>mpu_g1 := mpu_g1 m + scast (raw_g1 x - mpu_g01 m),
       mpu_g2 := mpu_g2 m + scast (raw_g2 x - mpu_g02 m),
       mpu_g3 := mpu_g3 m + scast (raw_g3 x - mpu_g03 m),
       mpu_a1 := mpu_a1 m + scast (raw_a1 x - mpu_a01 m),
       mpu_a2 := mpu_a2 m + scast (raw_a2 x - mpu_a02 m),
       mpu_a3 := mpu_a3 m + scast (raw_a3 x - mpu_a03 m),
       mpu_n := mpu_n m + 1\<rparr>"

text \<open>The nine accumulators of a device.\<close>

definition accumulators :: "MPU9250 \<Rightarrow> 32 word list" where
  "accumulators m = [mpu_g1 m, mpu_g2 m, mpu_g3 m, mpu_a1 m, mpu_a2 m, mpu_a3 m,
                     mpu_m1 m, mpu_m2 m, mpu_m3 m]"


section \<open>Quaternion normalization and the rotation caches\<close>

lemma rotation_cache_unit:
  assumes "q0 * q0 + q1 * q1 + q2 * q2 + q3 * q3 = 1"
  shows "is_rotation (rotation_cache q0 q1 q2 q3)"
  using assms unfolding rotation_cache_def is_rotation.simps
  by algebra

lemma unit_after_division:
  fixes a b c d :: real
  assumes "a * a + b * b + c * c + d * d \<noteq> 0"
  shows "(a / sqrt (a * a + b * b + c * c + d * d)) * (a / sqrt (a * a + b * b + c * c + d * d))
       + (b / sqrt (a * a + b * b + c * c + d * d)) * (b / sqrt (a * a + b * b + c * c + d * d))
       + (c / sqrt (a * a + b * b + c * c + d * d)) * (c / sqrt (a * a + b * b + c * c + d * d))
       + (d / sqrt (a * a + b * b + c * c + d * d)) * (d / sqrt (a * a + b * b + c * c + d * d)) = 1"
proof -
  define n where "n = sqrt (a * a + b * b + c * c + d * d)"
  have nn: "0 \<le> a * a + b * b + c * c + d * d" by simp
  have "n * n = a * a + b * b + c * c + d * d" unfolding n_def using nn by simp
  moreover have "(a / n) * (a / n) + (b / n) * (b / n) + (c / n) * (c / n) + (d / n) * (d / n)
    = (a * a + b * b + c * c + d * d) / (n * n)" by (simp add: add_divide_distrib)
  ultimately show ?thesis using assms(1) unfolding n_def by simp
qed

lemma normalize_E_fields:
  "E0 (normalize_state s) = E0 s / normE s" "E1 (normalize_state s) = E1 s / normE s"
  "E2 (normalize_state s) = E2 s / normE s" "E3 (normalize_state s) = E3 s / normE s"
  by (simp_all add: normalize_state_def Let_def normE_def)

lemma normalize_F_fields:
  "F0 (normalize_state s) = F0 s / normF s" "F1 (normalize_state s) = F1 s / normF s"
  "F2 (normalize_state s) = F2 s / normF s" "F3 (normalize_state s) = F3 s / normF s"
  by (simp_all add: normalize_state_def Let_def normF_def)

lemma normE_normalize:
  assumes "normE s \<noteq> 0"
  shows "normE (normalize_state s) = 1"
proof -
  from assms have nz: "E0 s * E0 s + E1 s * E1 s + E2 s * E2 s + E3 s * E3 s \<noteq> 0"
    by (auto simp: normE_def)
  show ?thesis
    unfolding normE_def[of "normalize_state s"] normalize_E_fields
    unfolding normE_def
    using unit_after_division[OF nz] by simp
qed

lemma normF_normalize:
  assumes "normF s \<noteq> 0"
  shows "normF (normalize_state s) = 1"
proof -
  from assms have nz: "F0 s * F0 s + F1 s * F1 s + F2 s * F2 s + F3 s * F3 s \<noteq> 0"
    by (auto simp: normF_def)
  show ?thesis
    unfolding normF_def[of "normalize_state s"] normalize_F_fields
    unfolding normF_def
    using unit_after_division[OF nz] by simp
qed

lemma normalize_scalars_others:
  "U1 (normalize_state s) = U1 s" "U2 (normalize_state s) = U2 s" "U3 (normalize_state s) = U3 s"
  "Z1 (normalize_state s) = Z1 s" "Z2 (normalize_state s) = Z2 s" "Z3 (normalize_state s) = Z3 s"
  "H1 (normalize_state s) = H1 s" "H2 (normalize_state s) = H2 s" "H3 (normalize_state s) = H3 s"
  "N1 (normalize_state s) = N1 s" "N2 (normalize_state s) = N2 s" "N3 (normalize_state s) = N3 s"
  "V1 (normalize_state s) = V1 s" "V2 (normalize_state s) = V2 s" "V3 (normalize_state s) = V3 s"
  "C1 (normalize_state s) = C1 s" "C2 (normalize_state s) = C2 s" "C3 (normalize_state s) = C3 s"
  "D1 (normalize_state s) = D1 s" "D2 (normalize_state s) = D2 s" "D3 (normalize_state s) = D3 s"
  "L1 (normalize_state s) = L1 s" "L2 (normalize_state s) = L2 s" "L3 (normalize_state s) = L3 s"
  "sT (normalize_state s) = sT s" "sM (normalize_state s) = sM s" "sN (normalize_state s) = sN s"
  by (simp_all add: normalize_state_def Let_def)

lemma quatE_normalize: "quatE (normalize_state s) = unit_of (quatE s)"
  by (simp add: quatE_def unit_of_def normalize_E_fields normE_def)

lemma quatF_normalize: "quatF (normalize_state s) = unit_of (quatF s)"
  by (simp add: quatF_def unit_of_def normalize_F_fields normF_def)

lemma sum_squares_zero:
  fixes a b c d :: real
  shows "a * a + b * b + c * c + d * d = 0 \<longleftrightarrow> a = 0 \<and> b = 0 \<and> c = 0 \<and> d = 0"
proof -
  have "a * a + b * b + c * c + d * d = a\<^sup>2 + b\<^sup>2 + (c\<^sup>2 + d\<^sup>2)"
    by (simp add: power2_eq_square)
  moreover have "a\<^sup>2 + b\<^sup>2 + (c\<^sup>2 + d\<^sup>2) = 0 \<longleftrightarrow> a\<^sup>2 + b\<^sup>2 = 0 \<and> c\<^sup>2 + d\<^sup>2 = 0"
    by (intro add_nonneg_eq_0_iff) simp_all
  ultimately show ?thesis by simp
qed

lemma normE_zero_iff: "normE s = 0 \<longleftrightarrow> quatE s = (0, 0, 0, 0)"
  by (simp add: normE_def quatE_def sum_squares_zero)

lemma normF_zero_iff: "normF s = 0 \<longleftrightarrow> quatF s = (0, 0, 0, 0)"
  by (simp add: normF_def quatF_def sum_squares_zero)

lemma level_unit: "normE level_state = 1" "normF level_state = 1"
  by (simp_all add: normE_def normF_def level_state_def zero_state_def)

lemma level_normalized:
  "quatE (normalize_state level_state) = (1, 0, 0, 0)"
  "quatF (normalize_state level_state) = (1, 0, 0, 0)"
  using level_unit
  by (simp_all add: quatE_def quatF_def normalize_E_fields normalize_F_fields
      level_state_def zero_state_def)

lemma sM_level: "sM (normalize_state level_state) = Zeros 32 32"
  by (simp add: normalize_state_def Let_def level_state_def zero_state_def)

lemma PredictMeasurement_pair:
  "PredictMeasurement s = (fst (PredictMeasurement s), normalize_state s)"
  by (simp add: PredictMeasurement_def Let_def)

text \<open>
  The cache of \<open>F\<close> is assigned in full: after \<open>normalize\<close> it is the rotation matrix of
  the normalized \<open>F\<close>, orthogonal with determinant 1 whenever \<open>F\<close> was not zero.
\<close>

lemma normalize_f_cache:
  "f_cache (normalize_state s) =
     rotation_cache (F0 (normalize_state s)) (F1 (normalize_state s))
       (F2 (normalize_state s)) (F3 (normalize_state s))"
  by (simp add: normalize_state_def Let_def f_cache_def rotation_cache_def)

lemma f_cache_rotation:
  assumes "normF s \<noteq> 0"
  shows "is_rotation (f_cache (normalize_state s))"
proof -
  have "normF (normalize_state s) = 1" using assms by (rule normF_normalize)
  then have "F0 (normalize_state s) * F0 (normalize_state s)
     + F1 (normalize_state s) * F1 (normalize_state s)
     + F2 (normalize_state s) * F2 (normalize_state s)
     + F3 (normalize_state s) * F3 (normalize_state s) = 1"
    unfolding normF_def by simp
  then show ?thesis unfolding normalize_f_cache by (rule rotation_cache_unit)
qed

text \<open>The cache of \<open>E\<close> is not: \<open>e12\<close> keeps whatever value it had before the call.\<close>

lemma normalize_keeps_e12: "e12 (normalize_state s) = e12 s"
  by (simp add: normalize_state_def Let_def)

text \<open>
  Claim C1. For every unit quaternion \<open>E\<close> (and likewise \<open>F\<close>) the nine cached entries
  that \<open>normalize\<close> computes form an orthogonal matrix of determinant 1, refreshed from
  the current quaternion on every call. The code does not do this for \<open>E\<close>: on the state
  with the unit quaternion \<open>E = (3/5, 0, 0, 4/5)\<close> and all cache entries 0, the entries
  after \<open>normalize\<close> are those below, with \<open>e12 = 0\<close> where the rotation matrix of \<open>E\<close> has
  \<open>24/25\<close>, and the cached matrix is not orthogonal.
\<close>

theorem C1_e_cache_stale:
  "normE C1_state = 1 \<and>
   e_cache (normalize_state C1_state) = ((- 7 / 25, 0, 0), (- 24 / 25, - 7 / 25, 0), (0, 0, 1)) \<and>
   rotation_cache (E0 C1_state) (E1 C1_state) (E2 C1_state) (E3 C1_state)
     = ((- 7 / 25, 24 / 25, 0), (- 24 / 25, - 7 / 25, 0), (0, 0, 1)) \<and>
   \<not> is_rotation (e_cache (normalize_state C1_state))"
proof -
  have sq: "sqrt (3 / 5 * (3 / 5) + 4 / 5 * (4 / 5)) = (1::real)"
  proof -
    have "(3 / 5) * (3 / 5) + (4 / 5) * (4 / 5) = (1::real)" by simp
    then show ?thesis by simp
  qed
  have a: "normE C1_state = 1"
    using sq by (simp add: normE_def C1_state_def zero_state_def)
  have b: "e_cache (normalize_state C1_state)
      = ((- 7 / 25, 0, 0), (- 24 / 25, - 7 / 25, 0), (0, 0, 1))"
    using sq by (simp add: e_cache_def normalize_state_def Let_def C1_state_def zero_state_def)
  have c: "rotation_cache (E0 C1_state) (E1 C1_state) (E2 C1_state) (E3 C1_state)
     = ((- 7 / 25, 24 / 25, 0), (- 24 / 25, - 7 / 25, 0), (0, 0, 1))"
    by (simp add: rotation_cache_def C1_state_def zero_state_def)
  have d: "\<not> is_rotation (e_cache (normalize_state C1_state))"
    unfolding b by simp
  show ?thesis using a b c d by blast
qed


section \<open>Matrices: entries and dimensions\<close>

lemma GetM_SetM: "GetM (SetM A i j v) p q = (if p = i \<and> q = j then v else GetM A p q)"
  by (simp add: GetM_def SetM_def)

lemma elements_SetM:
  "elements (SetM A i j v) p q = (if p = i \<and> q = j then v else elements A p q)"
  by (simp add: SetM_def)

lemma dims_SetM: "rows (SetM A i j v) = rows A" "cols (SetM A i j v) = cols A"
  by (simp_all add: SetM_def)

lemma SetAll_Nil: "SetAll A [] = A"
  by (simp add: SetAll_def)

lemma SetAll_Cons: "SetAll A ((i, j, v) # ws) = SetAll (SetM A i j v) ws"
  by (simp add: SetAll_def)

lemma dims_SetAll: "rows (SetAll A ws) = rows A \<and> cols (SetAll A ws) = cols A"
proof (induction ws arbitrary: A)
  case Nil
  show ?case by (simp add: SetAll_Nil)
next
  case (Cons w ws)
  obtain i j v where w: "w = (i, j, v)" by (cases w)
  show ?case unfolding w SetAll_Cons using Cons[of "SetM A i j v"] by (simp add: dims_SetM)
qed

lemma dims_jacobian:
  "rows (calcJacobianMeasurement s) = 15" "cols (calcJacobianMeasurement s) = 32"
  unfolding calcJacobianMeasurement_def Let_def
  by (simp_all only: dims_SetAll) (simp_all add: Zeros_def)

lemma Product_Zeros_left: "ProductM (Zeros r c) B = Zeros r (cols B)"
  by (simp add: ProductM_def Zeros_def)

lemma Product_Zeros_right: "ProductM A (Zeros r c) = Zeros (rows A) c"
  by (simp add: ProductM_def Zeros_def)

lemma SumM_Zeros:
  assumes "rows R = r" "cols R = c"
  shows "SumM (Zeros r c) R = R"
  using assms by (cases R) (simp add: SumM_def Zeros_def)

lemma dims_ProductM: "rows (ProductM A B) = rows A" "cols (ProductM A B) = cols B"
  by (simp_all add: ProductM_def)

lemma dims_TransposeM: "rows (TransposeM A) = cols A" "cols (TransposeM A) = rows A"
  by (simp_all add: TransposeM_def)

lemma sum_pick:
  fixes c :: "nat \<Rightarrow> real"
  assumes "a < n"
  shows "(\<Sum>k<n. if k = a then c k else 0) = c a"
  using assms by (simp add: sum.delta)

text \<open>What \<open>Inverse_diagonal\<close> returns is the inverse.\<close>

lemma Inverse_diagonal_inverse:
  assumes "Inverse_diagonal A = Some B" and "i < rows A" and "j < rows A"
  shows "elements (ProductM A B) i j = elements (Eye (rows A)) i j"
proof -
  let ?C = "rows A = cols A
      \<and> (\<forall>i<rows A. \<forall>j<cols A. elements A i j = (if i = j then elements A i i else 0))
      \<and> (\<forall>i<rows A. elements A i i \<noteq> 0)"
  have cond: ?C
  proof (rule ccontr)
    assume "\<not> ?C"
    then have "Inverse_diagonal A = None" unfolding Inverse_diagonal_def by (rule if_not_P)
    with assms(1) show False by simp
  qed
  have B: "B = \<lparr>rows = rows A, cols = cols A,
                elements = (\<lambda>i j. if i = j \<and> i < rows A then 1 / elements A i i else 0)\<rparr>"
    using assms(1) unfolding Inverse_diagonal_def if_P[OF cond] by simp
  have sq: "rows A = cols A" using cond by (rule conjunct1)
  have shape: "\<forall>i<rows A. \<forall>j<cols A. elements A i j = (if i = j then elements A i i else 0)"
    using cond by (elim conjE)
  have nz: "elements A i i \<noteq> 0" using cond assms(2) by blast
  have "elements (ProductM A B) i j = (\<Sum>k<cols A. elements A i k * elements B k j)"
    by (simp add: ProductM_def)
  also have "\<dots> = (\<Sum>k<cols A. if k = i then elements A i i * elements B i j else 0)"
  proof (rule sum.cong)
    fix k assume "k \<in> {..<cols A}"
    then have "k < cols A" by simp
    with shape assms(2) have "elements A i k = (if i = k then elements A i i else 0)" by blast
    then show "elements A i k * elements B k j
        = (if k = i then elements A i i * elements B i j else 0)" by auto
  qed (rule refl)
  also have "\<dots> = elements A i i * elements B i j"
    using assms(2) sq by (intro sum_pick) simp
  also have "\<dots> = elements (Eye (rows A)) i j"
    using nz assms(2) by (cases "i = j") (simp_all add: B Eye_def)
  finally show ?thesis .
qed


section \<open>The prediction step\<close>

lemma calcJacobianState_E:
  "quatE (snd (calcJacobianState s t)) = Euler_pass (t - sT s) (H1 s, H2 s, H3 s) (quatE s)"
  by (simp add: calcJacobianState_def Let_def quatE_def Euler_pass_def)

lemma calcJacobianState_others:
  "H1 (snd (calcJacobianState s t)) = H1 s" "H2 (snd (calcJacobianState s t)) = H2 s"
  "H3 (snd (calcJacobianState s t)) = H3 s" "sT (snd (calcJacobianState s t)) = sT s"
  by (simp_all add: calcJacobianState_def Let_def)

text \<open>
  The quaternion \<open>E\<close> after \<open>Predict\<close>: the four assignments are made twice, once by
  \<open>calcJacobianState\<close> and once by \<open>Predict\<close> itself, before the normalization.
\<close>

lemma Predict_quatE:
  "quatE (Predict s t) =
     unit_of (Euler_pass (t - sT s) (H1 s, H2 s, H3 s)
                (Euler_pass (t - sT s) (H1 s, H2 s, H3 s) (quatE s)))"
proof -
  obtain f s1 where cj: "calcJacobianState s t = (f, s1)" by (cases "calcJacobianState s t")
  have s1: "quatE s1 = Euler_pass (t - sT s) (H1 s, H2 s, H3 s) (quatE s)"
    "H1 s1 = H1 s" "H2 s1 = H2 s" "H3 s1 = H3 s" "sT s1 = sT s"
    using calcJacobianState_E[of s t] calcJacobianState_others[of s t] by (simp_all add: cj)
  have "quatE (Predict s t) = unit_of (Euler_pass (t - sT s1) (H1 s1, H2 s1, H3 s1) (quatE s1))"
    by (simp add: Predict_def cj Let_def quatE_def[of "_\<lparr>sM := _\<rparr>"]
        quatE_normalize[unfolded quatE_def[of "normalize_state _"]] quatE_def Euler_pass_def)
  then show ?thesis by (simp add: s1)
qed

lemma Predict_quatF: "quatF (Predict s t) = unit_of (quatF s)"
  by (simp add: Predict_def calcJacobianState_def Let_def quatF_def unit_of_def
      normalize_F_fields normF_def split: prod.splits)

text \<open>
  What \<open>Predict\<close> does to the rest of the state: the airspeed moves by \<open>dt * Z / G\<close>, the
  time is set, and \<open>Z\<close>, \<open>H\<close>, \<open>N\<close>, \<open>V\<close>, \<open>C\<close>, \<open>D\<close> and \<open>L\<close> stay.
\<close>

lemma Predict_others:
  "U1 (Predict s t) = U1 s + (t - sT s) * Z1 s / G"
  "U2 (Predict s t) = U2 s + (t - sT s) * Z2 s / G"
  "U3 (Predict s t) = U3 s + (t - sT s) * Z3 s / G"
  "sT (Predict s t) = t"
  "biases (Predict s t) = biases s"
  by (simp_all add: Predict_def calcJacobianState_def Let_def biases_def
      normalize_scalars_others split: prod.splits)

lemma Deg_bounds: "0 < Deg" "Deg < 1"
proof -
  show "0 < Deg" by (simp add: Deg_def)
  have "pi < 4" using pi_less_4 by simp
  then show "Deg < 1" by (simp add: Deg_def)
qed

lemma C2_two_passes:
  "Euler_pass (2 - sT C2_state) (H1 C2_state, H2 C2_state, H3 C2_state)
     (Euler_pass (2 - sT C2_state) (H1 C2_state, H2 C2_state, H3 C2_state) (quatE C2_state))
   = (1 - Deg * Deg, Deg + (1 - Deg * Deg) * Deg, 0, 0)"
  by (simp add: Euler_pass_def quatE_def C2_state_def level_state_def zero_state_def Let_def)

lemma C2_claimed:
  "Predict_claimed_E C2_state 2 = (1 / sqrt (1 + Deg * Deg), Deg / sqrt (1 + Deg * Deg), 0, 0)"
  by (simp add: Predict_claimed_E_def Let_def C2_state_def level_state_def zero_state_def)

text \<open>
  Claim C2. \<open>Predict(t)\<close> moves the quaternion by exactly one Euler step
  \<open>E + (dt/2) * Omega(H) * E\<close> and renormalizes. The code does not: on the level state
  with \<open>H = (1, 0, 0)\<close> degrees per second, \<open>T = 0\<close> and \<open>t = 2\<close>, one step from
  \<open>E = (1, 0, 0, 0)\<close> is \<open>(1, Deg, 0, 0)\<close>, and \<open>Predict\<close> leaves the direction of
  \<open>(1 - Deg\<^sup>2, 2 Deg - Deg\<^sup>3, 0, 0)\<close>, the result of stepping twice.
\<close>

theorem C2_quaternion_stepped_twice:
  "quatE (Predict C2_state 2) = unit_of (1 - Deg * Deg, Deg + (1 - Deg * Deg) * Deg, 0, 0)
   \<and> Predict_claimed_E C2_state 2 = unit_of (1, Deg, 0, 0)
   \<and> quatE (Predict C2_state 2) \<noteq> Predict_claimed_E C2_state 2"
proof -
  let ?a = "1 - Deg * Deg" and ?b = "Deg + (1 - Deg * Deg) * Deg"
  let ?n = "sqrt (?a * ?a + ?b * ?b + 0 * 0 + 0 * 0)"
  let ?k = "sqrt (1 * 1 + Deg * Deg + 0 * 0 + 0 * 0)"
  have code: "quatE (Predict C2_state 2) = unit_of (?a, ?b, 0, 0)"
    unfolding Predict_quatE C2_two_passes by (rule refl)
  have claimed: "Predict_claimed_E C2_state 2 = unit_of (1, Deg, 0, 0)"
    unfolding C2_claimed by (simp add: unit_of_def)
  have apos: "0 < ?a"
  proof -
    have "Deg * Deg < 1 * 1" using Deg_bounds by (intro mult_strict_mono) simp_all
    then show ?thesis by simp
  qed
  have npos: "0 < ?n" using apos by (simp add: add_pos_nonneg)
  have "unit_of (?a, ?b, 0, 0) \<noteq> unit_of (1, Deg, 0, 0)"
  proof
    assume eq: "unit_of (?a, ?b, 0, 0) = unit_of (1, Deg, 0, 0)"
    then have e0: "?a / ?n = 1 / ?k" and e1: "?b / ?n = Deg / ?k"
      by (simp_all add: unit_of_def)
    have "?b / ?n = Deg * (?a / ?n)" using e0 e1 by simp
    then have "?b = Deg * ?a" using npos by (simp add: field_simps)
    then have "Deg = 0" by (simp add: algebra_simps)
    then show False using Deg_bounds by simp
  qed
  then show ?thesis using code claimed by simp
qed


section \<open>The predicted magnetometer reading\<close>

text \<open>
  Claim C3. The magnetometer components that \<open>PredictMeasurement\<close> returns are \<open>N\<close>
  rotated by \<open>E\<close>, then by \<open>F\<close>, with the bias \<open>L\<close> added exactly once. The code adds
  \<open>L\<close> twice, before and after the rotation by \<open>F\<close>: on the level state with
  \<open>N = (3, 0, 0)\<close> and \<open>L = (1, 0, 0)\<close> both rotations are the identity, the claimed
  reading is \<open>(4, 0, 0)\<close> and the code returns \<open>(5, 0, 0)\<close>.
\<close>

theorem C3_bias_added_twice:
  "(case fst (PredictMeasurement C3_state) of z \<Rightarrow> (m_M1 z, m_M2 z, m_M3 z)) = (5, 0, 0)
   \<and> magnetometer_claimed C3_state = (4, 0, 0)"
  by (simp add: PredictMeasurement_def magnetometer_claimed_def rotation_cache_def Let_def
      normalize_state_def C3_state_def level_state_def zero_state_def)


section \<open>Unit quaternions after a step\<close>

lemma Euler_pass_zero:
  assumes "Euler_pass dt h q = (0, 0, 0, 0)"
  shows "q = (0, 0, 0, 0)"
proof -
  obtain h1 h2 h3 where h: "h = (h1, h2, h3)" by (cases h)
  obtain a b c d where q: "q = (a, b, c, d)" by (cases q)
  define a' where "a' = a + 0.5 * dt * (- h1 * b - h2 * c - h3 * d) * Deg"
  define b' where "b' = b + 0.5 * dt * (h1 * a' + h2 * d - h3 * c) * Deg"
  define c' where "c' = c + 0.5 * dt * (- h1 * d + h2 * a' + h3 * b') * Deg"
  define d' where "d' = d + 0.5 * dt * (h1 * c' - h2 * b' + h3 * a') * Deg"
  have "Euler_pass dt h q = (a', b', c', d')"
    unfolding h q Euler_pass_def Let_def a'_def b'_def c'_def d'_def by simp
  with assms have z: "a' = 0" "b' = 0" "c' = 0" "d' = 0" by simp_all
  from d'_def have d0: "d = 0" unfolding z by simp
  from c'_def have c0: "c = 0" unfolding z d0 by simp
  from b'_def have b0: "b = 0" unfolding z c0 d0 by simp
  from a'_def have a0: "a = 0" unfolding z b0 c0 d0 by simp
  show ?thesis using a0 b0 c0 d0 q by simp
qed

lemma Predict_normE:
  assumes "normE s \<noteq> 0"
  shows "normE (Predict s t) = 1"
proof -
  let ?q = "Euler_pass (t - sT s) (H1 s, H2 s, H3 s)
                (Euler_pass (t - sT s) (H1 s, H2 s, H3 s) (quatE s))"
  have "?q \<noteq> (0, 0, 0, 0)"
    using assms Euler_pass_zero unfolding normE_zero_iff by blast
  moreover obtain a b c d where q: "?q = (a, b, c, d)" by (cases ?q)
  ultimately have nz: "a * a + b * b + c * c + d * d \<noteq> 0"
    by (simp add: sum_squares_zero)
  have "quatE (Predict s t) = unit_of (a, b, c, d)"
    unfolding Predict_quatE q by (rule refl)
  then show ?thesis
    unfolding normE_def quatE_def unit_of_def
    using unit_after_division[OF nz] by simp
qed

lemma Predict_normF:
  assumes "normF s \<noteq> 0"
  shows "normF (Predict s t) = 1"
proof -
  from assms have nz: "F0 s * F0 s + F1 s * F1 s + F2 s * F2 s + F3 s * F3 s \<noteq> 0"
    by (auto simp: normF_def)
  have "quatF (Predict s t) = unit_of (F0 s, F1 s, F2 s, F3 s)"
    using Predict_quatF[of s t] by (simp add: quatF_def)
  then show ?thesis
    unfolding normF_def quatF_def unit_of_def
    using unit_after_division[OF nz] by simp
qed

text \<open>
  Claim C4, as the code has it. After \<open>Predict\<close> on a state whose two quaternions are
  not zero, and after an \<open>Update\<close> that applies a correction and whose corrected
  quaternions (the state \<open>s1\<close> that the final \<open>normalize\<close> receives) are not zero, both
  quaternions have norm 1.
\<close>

theorem C4_unit_norm_when_nonzero:
  "(normE s \<noteq> 0 \<and> normF s \<noteq> 0 \<longrightarrow> normE (Predict s t) = 1 \<and> normF (Predict s t) = 1)
   \<and> (Update_core Inverse s m = Inr (s1, m1, lg, Corrected) \<and> normE s1 \<noteq> 0 \<and> normF s1 \<noteq> 0
        \<longrightarrow> Update Inverse s m = Inr (normalize_state s1, m1, lg)
            \<and> normE (normalize_state s1) = 1 \<and> normF (normalize_state s1) = 1)"
  by (simp add: Predict_normE Predict_normF Update_def normE_normalize normF_normalize)

text \<open>
  The level state and the measurement with no valid group: the noise matrix that
  \<open>Update\<close> builds is diagonal, the correction is applied, and it is zero.
\<close>

lemma noise_all_invalid:
  "Update_noise zero_measurement (y, Zeros 15 15) =
     (SetAll y [(0, 0, 0), (3, 0, 0), (4, 0, 0), (5, 0, 0), (6, 0, 0), (7, 0, 0), (8, 0, 0),
                (9, 0, 0), (10, 0, 0), (11, 0, 0), (12, 0, 0), (13, 0, 0), (14, 0, 0)],
      C4_noise)"
  by (simp add: Update_noise_def Let_def zero_measurement_def SetAll_Nil SetAll_Cons C4_noise_def)

lemma C4_noise_shape: "elements C4_noise i j = (if i = j then elements C4_noise i i else 0)"
  unfolding C4_noise_def SetAll_Cons SetAll_Nil elements_SetM Zeros_def
  by (cases "i = j") simp_all

lemma C4_noise_diag:
  assumes "i < 15"
  shows "elements C4_noise i i \<noteq> 0"
proof
  assume z: "elements C4_noise i i = 0"
  have "elements C4_noise i i = (if i \<in> {1, 2} then 25 else if i < 15 then Big else 0)"
    unfolding C4_noise_def SetAll_Cons SetAll_Nil elements_SetM Zeros_def
    by (simp add: numeral_eq_Suc less_Suc_eq)
  with z assms show False by (simp add: Big_def split: if_splits)
qed

lemma C4_noise_dims: "rows C4_noise = 15" "cols C4_noise = 15"
  by (simp_all add: C4_noise_def dims_SetAll Zeros_def)

lemma C4_noise_inverse: "Inverse_diagonal C4_noise \<noteq> None"
proof -
  have a: "\<forall>i<rows C4_noise. \<forall>j<cols C4_noise.
      elements C4_noise i j = (if i = j then elements C4_noise i i else 0)"
    using C4_noise_shape by blast
  have b: "\<forall>i<rows C4_noise. elements C4_noise i i \<noteq> 0"
    unfolding C4_noise_dims using C4_noise_diag by blast
  have c: "rows C4_noise = cols C4_noise" by (simp only: C4_noise_dims)
  show ?thesis unfolding Inverse_diagonal_def if_P[OF conjI[OF c conjI[OF a b]]] by simp
qed

lemma level_Update_core:
  "\<exists>s1 m1. Update_core Inverse_diagonal level_state zero_measurement = Inr (s1, m1, [], Corrected)
     \<and> quatE s1 = (1, 0, 0, 0) \<and> quatF s1 = (1, 0, 0, 0)"
proof -
  define z where "z = fst (PredictMeasurement level_state)"
  have pm: "PredictMeasurement level_state = (z, normalize_state level_state)"
    unfolding z_def by (rule PredictMeasurement_pair)
  define h where "h = calcJacobianMeasurement (normalize_state level_state)"
  have hMh: "ProductM h (ProductM (sM (normalize_state level_state)) (TransposeM h)) = Zeros 15 15"
    unfolding h_def
    by (simp add: sM_level Product_Zeros_left Product_Zeros_right dims_jacobian TransposeM_def)
  have ss: "SumM (Zeros 15 15) C4_noise = C4_noise"
    by (rule SumM_Zeros) (simp_all add: C4_noise_dims)
  obtain Si where Si: "Inverse_diagonal C4_noise = Some Si"
    using C4_noise_inverse by (cases "Inverse_diagonal C4_noise") simp_all
  have kk: "ProductM (sM (normalize_state level_state)) (ProductM (TransposeM h) Si)
      = Zeros 32 (cols Si)"
    by (simp add: sM_level Product_Zeros_left ProductM_def[of "TransposeM _"])
  have su: "GetM (ProductM (Zeros 32 c) y) i 0 = 0" for c y i
    by (simp add: GetM_def ProductM_def Zeros_def)
  have mM: "m_M zero_measurement = Some (Zeros 15 15)" by (simp add: zero_measurement_def)
  define y where "y = SetAll (Update_innovation zero_measurement z)
      [(0, 0, 0), (3, 0, 0), (4, 0, 0), (5, 0, 0), (6, 0, 0), (7, 0, 0), (8, 0, 0),
       (9, 0, 0), (10, 0, 0), (11, 0, 0), (12, 0, 0), (13, 0, 0), (14, 0, 0)]"
  have un: "Update_noise zero_measurement (Update_innovation zero_measurement z, Zeros 15 15)
      = (y, C4_noise)"
    unfolding y_def by (rule noise_all_invalid)
  define s1 where "s1 = Update_correct (normalize_state level_state)
     (zero_measurement\<lparr>m_M := Some C4_noise\<rparr>) (Zeros 32 (cols Si)) h
     (ProductM (Zeros 32 (cols Si)) y)"
  have core: "Update_core Inverse_diagonal level_state zero_measurement
     = Inr (s1, zero_measurement\<lparr>m_M := Some C4_noise\<rparr>, [], Corrected)"
    unfolding Update_core_def pm Let_def prod.case h_def[symmetric] mM option.case un hMh ss Si
      kk s1_def
    by (rule refl)
  have "quatE s1 = (1, 0, 0, 0)" "quatF s1 = (1, 0, 0, 0)"
    using level_normalized unfolding s1_def Update_correct_def quatE_def quatF_def
    by (simp_all add: su)
  with core show ?thesis by blast
qed

theorem C4_unit_norm_when_nonzero_witness:
  "normE level_state \<noteq> 0 \<and> normF level_state \<noteq> 0
   \<and> normE (Predict level_state 1) = 1 \<and> normF (Predict level_state 1) = 1
   \<and> (\<exists>s1 m1. Update_core Inverse_diagonal level_state zero_measurement
                   = Inr (s1, m1, [], Corrected)
               \<and> normE s1 \<noteq> 0 \<and> normF s1 \<noteq> 0
               \<and> Update Inverse_diagonal level_state zero_measurement
                   = Inr (normalize_state s1, m1, [])
               \<and> normE (normalize_state s1) = 1 \<and> normF (normalize_state s1) = 1)"
proof -
  obtain s1 m1 where core:
    "Update_core Inverse_diagonal level_state zero_measurement = Inr (s1, m1, [], Corrected)"
    and q: "quatE s1 = (1, 0, 0, 0)" "quatF s1 = (1, 0, 0, 0)"
    using level_Update_core by blast
  have nz: "normE s1 \<noteq> 0" "normF s1 \<noteq> 0"
    using q by (simp_all add: normE_zero_iff normF_zero_iff)
  have lv: "normE level_state \<noteq> 0" "normF level_state \<noteq> 0"
    by (simp_all add: level_unit)
  show ?thesis
    using C4_unit_norm_when_nonzero[of level_state 1 Inverse_diagonal zero_measurement
        s1 m1 "[]"] core nz lv
    by blast
qed

lemma unsure_normalized:
  "normalize_state C4_unsure_state =
     C4_unsure_state\<lparr>e11 := 1, e22 := 1, e33 := 1, f11 := 1, f22 := 1, f33 := 1\<rparr>"
  by (simp add: normalize_state_def Let_def C4_unsure_state_def level_state_def zero_state_def)

lemma unsure_jacobian_column:
  "elements (calcJacobianMeasurement (normalize_state C4_unsure_state)) i 6
     = (if i = 8 then - 2 else 0)"
  unfolding unsure_normalized calcJacobianMeasurement_def Let_def SetAll_Cons SetAll_Nil
    elements_SetM
  by (simp add: C4_unsure_state_def level_state_def zero_state_def Zeros_def)

lemma unsure_covariance:
  "elements (sM (normalize_state C4_unsure_state)) i k = (if i = 6 \<and> k = 6 then 1 else 0)"
  "cols (sM (normalize_state C4_unsure_state)) = 32"
  by (simp_all add: normalize_scalars_others C4_unsure_state_def elements_SetM dims_SetM Zeros_def)

lemma unsure_Product_left:
  "elements (ProductM (sM (normalize_state C4_unsure_state)) X) i j
     = (if i = 6 then elements X 6 j else 0)"
proof -
  have "(\<Sum>k<32. (if i = 6 \<and> k = 6 then 1 else 0) * elements X k j)
      = (\<Sum>k<32. if k = 6 then (if i = 6 then elements X k j else 0) else 0)"
    by (intro sum.cong) auto
  also have "\<dots> = (if i = 6 then elements X 6 j else 0)"
    by (rule sum_pick) simp
  finally show ?thesis by (simp add: ProductM_def unsure_covariance)
qed

lemma unsure_hMh:
  "elements (ProductM (calcJacobianMeasurement (normalize_state C4_unsure_state))
      (ProductM (sM (normalize_state C4_unsure_state))
         (TransposeM (calcJacobianMeasurement (normalize_state C4_unsure_state))))) i j
     = (if i = 8 \<and> j = 8 then 4 else 0)"
proof -
  define h where "h = calcJacobianMeasurement (normalize_state C4_unsure_state)"
  have col: "elements h i 6 = (if i = 8 then - 2 else 0)" for i
    unfolding h_def by (rule unsure_jacobian_column)
  have "(\<Sum>k<32. elements h i k * (if k = 6 then elements (TransposeM h) 6 j else 0))
      = (\<Sum>k<32. if k = 6 then elements h i k * elements (TransposeM h) 6 j else 0)"
    by (intro sum.cong) auto
  also have "\<dots> = elements h i 6 * elements (TransposeM h) 6 j"
    by (rule sum_pick) simp
  also have "\<dots> = (if i = 8 \<and> j = 8 then 4 else 0)"
    by (simp add: TransposeM_def col)
  finally have e: "(\<Sum>k<32. elements h i k * (if k = 6 then elements (TransposeM h) 6 j else 0))
      = (if i = 8 \<and> j = 8 then 4 else 0)" .
  have ch: "cols h = 32" unfolding h_def by (rule dims_jacobian)
  have "elements (ProductM h (ProductM (sM (normalize_state C4_unsure_state)) (TransposeM h))) i j
      = (\<Sum>k<32. elements h i k * (if k = 6 then elements (TransposeM h) 6 j else 0))"
    unfolding ProductM_def[of h] by (simp add: ch unsure_Product_left)
  then show ?thesis unfolding h_def[symmetric] e .
qed


lemma noise_all_valid:
  "Update_noise C4_measurement (y, Zeros 15 15) = (y, C4_valid_noise)"
  by (simp add: Update_noise_def Let_def C4_measurement_def zero_measurement_def
      SetAll_Nil SetAll_Cons C4_valid_noise_def)

lemma valid_noise_dims: "rows C4_valid_noise = 15" "cols C4_valid_noise = 15"
  by (simp_all add: C4_valid_noise_def dims_SetAll Zeros_def)

lemma valid_noise_shape:
  "elements C4_valid_noise i j = (if i = j then elements C4_valid_noise i i else 0)"
  unfolding C4_valid_noise_def SetAll_Cons SetAll_Nil elements_SetM Zeros_def
  by (cases "i = j") auto

lemma valid_noise_diag: "0 < elements C4_valid_noise i i" if "i < 15"
proof -
  have "elements C4_valid_noise i i =
      (if i = 0 then 2 else if i \<in> {1, 2} then 25 else if i < 9 then 0.2
       else if i < 12 then 1 else if i < 15 then 5 else 0)"
    unfolding C4_valid_noise_def SetAll_Cons SetAll_Nil elements_SetM Zeros_def
    by (simp add: numeral_eq_Suc less_Suc_eq)
  with that show ?thesis by (simp split: if_splits)
qed

lemma C4_ss_entries:
  "rows C4_ss = 15" "cols C4_ss = 15"
  "elements C4_ss i j = (if i = 8 \<and> j = 8 then 4 else 0) + elements C4_valid_noise i j"
  unfolding C4_ss_def SumM_def by (simp_all add: unsure_hMh dims_ProductM dims_TransposeM dims_jacobian)

lemma C4_ss_inverse:
  "Inverse_diagonal C4_ss =
     Some \<lparr>rows = 15, cols = 15,
           elements = (\<lambda>i j. if i = j \<and> i < 15 then 1 / elements C4_ss i i else 0)\<rparr>"
proof -
  have a: "\<forall>i<rows C4_ss. \<forall>j<cols C4_ss.
      elements C4_ss i j = (if i = j then elements C4_ss i i else 0)"
  proof (intro allI impI)
    fix i j
    show "elements C4_ss i j = (if i = j then elements C4_ss i i else 0)"
      using valid_noise_shape[of i j] by (cases "i = j") (simp_all add: C4_ss_entries)
  qed
  have b: "\<forall>i<rows C4_ss. elements C4_ss i i \<noteq> 0"
  proof (intro allI impI)
    fix i assume "i < rows C4_ss"
    then have "0 < elements C4_valid_noise i i" by (intro valid_noise_diag) (simp add: C4_ss_entries)
    then have "0 < (if i = 8 \<and> i = 8 then 4 else 0) + elements C4_valid_noise i i"
      by (cases "i = 8") simp_all
    then show "elements C4_ss i i \<noteq> 0" unfolding C4_ss_entries by simp
  qed
  have c: "rows C4_ss = cols C4_ss" by (simp only: C4_ss_entries)
  show ?thesis
    unfolding Inverse_diagonal_def if_P[OF conjI[OF c conjI[OF a b]]]
    by (simp add: C4_ss_entries)
qed

lemma C4_ss_88: "elements C4_ss 8 8 = 21 / 5"
  by (simp add: C4_ss_entries C4_valid_noise_def SetAll_Cons SetAll_Nil elements_SetM Zeros_def)


lemma unsure_y:
  "elements (Update_innovation C4_measurement (fst (PredictMeasurement C4_unsure_state))) k 0
     = (if k = 8 then 21 / 10 else 0)"
  unfolding Update_innovation_def SetAll_Cons SetAll_Nil elements_SetM PredictMeasurement_def
    Let_def fst_conv unsure_normalized
  by (simp add: C4_measurement_def zero_measurement_def C4_unsure_state_def level_state_def
      zero_state_def Zeros_def)

lemma unsure_gain:
  fixes Si :: DenseMatrix
  defines "Si \<equiv> \<lparr>rows = 15, cols = 15,
           elements = (\<lambda>i j. if i = j \<and> i < 15 then 1 / elements C4_ss i i else 0)\<rparr>"
  shows "elements (ProductM (sM (normalize_state C4_unsure_state))
           (ProductM (TransposeM (calcJacobianMeasurement (normalize_state C4_unsure_state))) Si)) i j
         = (if i = 6 \<and> j = 8 then - (10 / 21) else 0)"
proof -
  define h where "h = calcJacobianMeasurement (normalize_state C4_unsure_state)"
  have "elements (ProductM (TransposeM h) Si) 6 j
      = (\<Sum>l<15. if l = 8 then elements h l 6 * elements Si l j else 0)"
    unfolding ProductM_def h_def
    by (simp add: dims_TransposeM dims_jacobian TransposeM_def unsure_jacobian_column
        if_distrib[of "\<lambda>x. x * _"] cong: if_cong)
  also have "\<dots> = elements h 8 6 * elements Si 8 j" by (rule sum_pick) simp
  also have "\<dots> = (if j = 8 then - (10 / 21) else 0)"
    by (simp add: h_def unsure_jacobian_column Si_def C4_ss_88)
  finally show ?thesis
    unfolding unsure_Product_left h_def by auto
qed


text \<open>
  The hypothesis on the corrected quaternions is needed for \<open>Update\<close> as well. From the
  level state with variance 1 on \<open>E0\<close>, unit quaternions both, the measurement above
  gives the correction \<open>-1\<close> to \<open>E0\<close> and none to \<open>E1\<close>, \<open>E2\<close>, \<open>E3\<close>: the
  final \<open>normalize\<close> receives \<open>E = (0, 0, 0, 0)\<close>.
\<close>

lemma unsure_Update:
  "\<exists>s' m'. Update Inverse_diagonal C4_unsure_state C4_measurement = Inr (s', m', [])
      \<and> quatE s' = (0, 0, 0, 0)"
proof -
  define z where "z = fst (PredictMeasurement C4_unsure_state)"
  have pm: "PredictMeasurement C4_unsure_state = (z, normalize_state C4_unsure_state)"
    unfolding z_def by (rule PredictMeasurement_pair)
  define h where "h = calcJacobianMeasurement (normalize_state C4_unsure_state)"
  define y where "y = Update_innovation C4_measurement z"
  define Si where "Si = \<lparr>rows = 15, cols = 15,
      elements = (\<lambda>i j. if i = j \<and> i < 15 then 1 / elements C4_ss i i else 0)\<rparr>"
  define kk where "kk = ProductM (sM (normalize_state C4_unsure_state)) (ProductM (TransposeM h) Si)"
  define mm where "mm = C4_measurement\<lparr>m_M := Some C4_valid_noise\<rparr>"
  define s1 where "s1 = Update_correct (normalize_state C4_unsure_state) mm kk h (ProductM kk y)"
  have mM: "m_M C4_measurement = Some (Zeros 15 15)"
    by (simp add: C4_measurement_def zero_measurement_def)
  have un: "Update_noise C4_measurement (y, Zeros 15 15) = (y, C4_valid_noise)"
    by (rule noise_all_valid)
  have core: "Update_core Inverse_diagonal C4_unsure_state C4_measurement
      = Inr (s1, mm, [], Corrected)"
    unfolding Update_core_def pm Let_def prod.case h_def[symmetric] y_def[symmetric] mM option.case
      un C4_ss_def[unfolded h_def[symmetric], symmetric] C4_ss_inverse Si_def[symmetric]
      kk_def[symmetric] mm_def[symmetric] s1_def
    by (rule refl)
  have kk: "elements kk i j = (if i = 6 \<and> j = 8 then - (10 / 21) else 0)" for i j
    unfolding kk_def h_def Si_def by (rule unsure_gain)
  have ckk: "cols kk = 15" by (simp add: kk_def dims_ProductM Si_def)
  have yk: "elements y k 0 = (if k = 8 then 21 / 10 else 0)" for k
    unfolding y_def z_def by (rule unsure_y)
  have su: "GetM (ProductM kk y) i 0 = (if i = 6 then - 1 else 0)" for i
  proof -
    have "GetM (ProductM kk y) i 0 = (\<Sum>k<15. if k = 8 then elements kk i k * elements y k 0 else 0)"
      unfolding GetM_def ProductM_def
      by (simp add: ckk yk if_distrib[of "\<lambda>x. _ * x"] cong: if_cong)
    also have "\<dots> = elements kk i 8 * elements y 8 0" by (rule sum_pick) simp
    also have "\<dots> = (if i = 6 then - 1 else 0)" by (simp add: kk yk)
    finally show ?thesis .
  qed
  have n: "quatE (normalize_state C4_unsure_state) = (1, 0, 0, 0)"
    unfolding unsure_normalized quatE_def
    by (simp add: C4_unsure_state_def level_state_def zero_state_def)
  have q: "quatE s1 = (0, 0, 0, 0)"
    using n unfolding s1_def Update_correct_def quatE_def su by simp
  have "Update Inverse_diagonal C4_unsure_state C4_measurement = Inr (normalize_state s1, mm, [])"
    by (simp add: Update_def core)
  moreover have "quatE (normalize_state s1) = (0, 0, 0, 0)"
    unfolding quatE_normalize q by (simp add: unit_of_def)
  ultimately show ?thesis by blast
qed


text \<open>
  Claim C4 as stated fails where \<open>normalize\<close> receives a zero quaternion. \<open>Predict\<close> on
  the state with \<open>E = (1, 0, 0, 0)\<close> and \<open>F = (0, 0, 0, 0)\<close> divides zero by zero, and
  \<open>F\<close> does not have norm 1 afterwards (it is zero here, and NaN in \<open>float64\<close>).
  \<open>Update\<close> on the level state with variance 1 on \<open>E0\<close>, both quaternions of norm 1,
  applies a correction for the measurement above and leaves \<open>E\<close> without norm 1.
\<close>

theorem C4_zero_quaternion_counterexample:
  "normF C4_state = 0
   \<and> \<not> \<bar>normF (Predict C4_state 1) - 1\<bar> \<le> 1 / 1000000
   \<and> normE C4_unsure_state = 1 \<and> normF C4_unsure_state = 1
   \<and> \<not> isl (Update Inverse_diagonal C4_unsure_state C4_measurement)
   \<and> snd (snd (projr (Update Inverse_diagonal C4_unsure_state C4_measurement))) = []
   \<and> \<not> \<bar>normE (fst (projr (Update Inverse_diagonal C4_unsure_state C4_measurement))) - 1\<bar>
         \<le> 1 / 1000000"
proof -
  have a: "normF C4_state = 0"
    by (simp add: normF_def C4_state_def zero_state_def)
  have "quatF (Predict C4_state 1) = (0, 0, 0, 0)"
    unfolding Predict_quatF by (simp add: quatF_def unit_of_def C4_state_def zero_state_def)
  then have b: "normF (Predict C4_state 1) = 0"
    by (simp add: normF_zero_iff)
  have c: "normE C4_unsure_state = 1" "normF C4_unsure_state = 1"
    by (simp_all add: normE_def normF_def C4_unsure_state_def level_state_def zero_state_def)
  obtain s' m' where u: "Update Inverse_diagonal C4_unsure_state C4_measurement = Inr (s', m', [])"
    and q: "quatE s' = (0, 0, 0, 0)"
    using unsure_Update by blast
  have d: "normE s' = 0" using q by (simp add: normE_zero_iff)
  show ?thesis using a b c d by (simp add: u)
qed


section \<open>A failed inversion skips the update\<close>

lemma normalize_unit_scalars:
  assumes "normE s = 1" "normF s = 1"
  shows "scalars (normalize_state s) = scalars s"
  using assms
  by (simp add: scalars_def normalize_scalars_others normalize_E_fields normalize_F_fields)

text \<open>
  Claim C5. For a state with unit quaternions and a measurement with its matrix
  allocated: when the inversion of \<open>ss = h * M * h\<^sup>T + m.M\<close> fails, \<open>Update\<close> returns with
  every one of the 32 state scalars, the timestamp and the covariance as they were
  before the call, and the warning is written to the log.
\<close>

theorem C5_singular_skips:
  assumes "normE s = 1" and "normF s = 1"
    and "m_M m = Some R0"
    and "Inverse (Update_ss s m R0) = None"
  shows "(case Update Inverse s m of
            Inl e \<Rightarrow> False
          | Inr (s', m', lg) \<Rightarrow>
              scalars s' = scalars s \<and> sT s' = sT s \<and> sM s' = sM s
              \<and> lg = [''AHRS: Can't invert Kalman gain matrix''])"
proof -
  define z where "z = fst (PredictMeasurement s)"
  have pm: "PredictMeasurement s = (z, normalize_state s)"
    unfolding z_def by (rule PredictMeasurement_pair)
  obtain y R where un: "Update_noise m (Update_innovation m z, R0) = (y, R)"
    by (cases "Update_noise m (Update_innovation m z, R0)") simp
  define h where "h = calcJacobianMeasurement (normalize_state s)"
  have ss: "Update_ss s m R0 =
      SumM (ProductM h (ProductM (sM (normalize_state s)) (TransposeM h))) R"
    unfolding Update_ss_def pm Let_def prod.case h_def[symmetric] un by (rule refl)
  have core: "Update_core Inverse s m =
      Inr (normalize_state s, m\<lparr>m_M := Some R\<rparr>,
           [''AHRS: Can't invert Kalman gain matrix''], Skipped)"
    unfolding Update_core_def pm Let_def prod.case h_def[symmetric] assms(3) option.case un
      assms(4)[unfolded ss]
    by (rule refl)
  show ?thesis
    using assms(1,2)
    by (simp add: Update_def core normalize_unit_scalars normalize_scalars_others)
qed

text \<open>
  The hypotheses hold for the level state with a zero covariance and the measurement
  whose noise matrix has the errors of \<open>U2\<close> and \<open>U3\<close> fully correlated: rows 1 and 2
  of \<open>ss\<close> are then equal, \<open>ss\<close> is singular, and the inversion fails.
\<close>

lemma C5_ss:
  "Update_ss level_state C5_measurement (SetAll (Zeros 15 15) [(1, 2, 25), (2, 1, 25)]) = C5_noise"
proof -
  define z where "z = fst (PredictMeasurement level_state)"
  have pm: "PredictMeasurement level_state = (z, normalize_state level_state)"
    unfolding z_def by (rule PredictMeasurement_pair)
  define h where "h = calcJacobianMeasurement (normalize_state level_state)"
  have hMh: "ProductM h (ProductM (sM (normalize_state level_state)) (TransposeM h)) = Zeros 15 15"
    unfolding h_def
    by (simp add: sM_level Product_Zeros_left Product_Zeros_right dims_jacobian TransposeM_def)
  have ss: "SumM (Zeros 15 15) C5_noise = C5_noise"
    by (rule SumM_Zeros) (simp_all add: C5_noise_def dims_SetAll Zeros_def)
  have "snd (Update_noise C5_measurement
      (Update_innovation C5_measurement z, SetAll (Zeros 15 15) [(1, 2, 25), (2, 1, 25)])) = C5_noise"
    by (simp add: Update_noise_def Let_def C5_measurement_def zero_measurement_def
        SetAll_Nil SetAll_Cons C5_noise_def)
  then obtain y where un: "Update_noise C5_measurement
      (Update_innovation C5_measurement z, SetAll (Zeros 15 15) [(1, 2, 25), (2, 1, 25)])
      = (y, C5_noise)"
    by (metis prod.collapse)
  show ?thesis
    unfolding Update_ss_def pm Let_def prod.case h_def[symmetric] hMh un ss
    by (rule refl)
qed

lemma C5_noise_rows_equal: "elements C5_noise 1 j = elements C5_noise 2 j"
  unfolding C5_noise_def SetAll_Cons SetAll_Nil elements_SetM Zeros_def by simp

lemma C5_noise_no_inverse: "Inverse_diagonal C5_noise = None"
proof -
  have d: "rows C5_noise = 15" "cols C5_noise = 15"
    by (simp_all add: C5_noise_def dims_SetAll Zeros_def)
  have e: "elements C5_noise 1 2 = 25"
    unfolding C5_noise_def SetAll_Cons SetAll_Nil elements_SetM Zeros_def by simp
  have "\<not> (\<forall>i<rows C5_noise. \<forall>j<cols C5_noise.
      elements C5_noise i j = (if i = j then elements C5_noise i i else 0))"
  proof
    assume "\<forall>i<rows C5_noise. \<forall>j<cols C5_noise.
      elements C5_noise i j = (if i = j then elements C5_noise i i else 0)"
    then have "elements C5_noise 1 2 = (if (1::nat) = 2 then elements C5_noise 1 1 else 0)"
      unfolding d by simp
    with e show False by simp
  qed
  then show ?thesis unfolding Inverse_diagonal_def by simp
qed

theorem C5_singular_skips_witness:
  "normE level_state = 1 \<and> normF level_state = 1
   \<and> m_M C5_measurement = Some (SetAll (Zeros 15 15) [(1, 2, 25), (2, 1, 25)])
   \<and> Inverse_diagonal
        (Update_ss level_state C5_measurement (SetAll (Zeros 15 15) [(1, 2, 25), (2, 1, 25)]))
      = None
   \<and> (case Update Inverse_diagonal level_state C5_measurement of
            Inl e \<Rightarrow> False
          | Inr (s', m', lg) \<Rightarrow>
              scalars s' = scalars level_state \<and> sT s' = sT level_state \<and> sM s' = sM level_state
              \<and> lg = [''AHRS: Can't invert Kalman gain matrix''])"
proof -
  have a: "normE level_state = 1" and b: "normF level_state = 1" by (rule level_unit)+
  have c: "m_M C5_measurement = Some (SetAll (Zeros 15 15) [(1, 2, 25), (2, 1, 25)])"
    by (simp add: C5_measurement_def)
  have d: "Inverse_diagonal
        (Update_ss level_state C5_measurement (SetAll (Zeros 15 15) [(1, 2, 25), (2, 1, 25)]))
      = None"
    unfolding C5_ss by (rule C5_noise_no_inverse)
  show ?thesis
    using a b c d C5_singular_skips[where Inverse = Inverse_diagonal, OF a b c d] by simp
qed


section \<open>The measurement noise and the innovation of invalid groups\<close>

text \<open>
  Claim C6, as the code has it. For the GPS rows 3 to 5, the accelerometer and gyro rows
  6 to 11 and the magnetometer rows 12 to 14: when the flag of the group is false, the
  diagonal entries of the group are \<open>Big\<close> and its innovation entries are zero; when it
  is true, the diagonal entries are 0.2 (GPS, accelerometer), 1 (gyro) and 5
  (magnetometer) and the innovation is kept. Of the pitot rows only row 0 follows
  \<open>UValid\<close> (2 when valid); rows 1 and 2 always get 25 and keep their innovation.
\<close>

theorem C6_noise_by_group:
  "(case Update_noise m (y, R) of
      (y', R') \<Rightarrow>
        (if m_UValid m
         then GetM R' 0 0 = 2 \<and> GetM y' 0 0 = GetM y 0 0
         else GetM R' 0 0 = Big \<and> GetM y' 0 0 = 0)
        \<and> diag_entries R' [1, 2] = [25, 25]
        \<and> column_entries y' [1, 2] = column_entries y [1, 2]
        \<and> (if m_WValid m
           then diag_entries R' [3, 4, 5] = [0.2, 0.2, 0.2]
                \<and> column_entries y' [3, 4, 5] = column_entries y [3, 4, 5]
           else diag_entries R' [3, 4, 5] = [Big, Big, Big]
                \<and> column_entries y' [3, 4, 5] = [0, 0, 0])
        \<and> (if m_SValid m
           then diag_entries R' [6, 7, 8, 9, 10, 11] = [0.2, 0.2, 0.2, 1, 1, 1]
                \<and> column_entries y' [6, 7, 8, 9, 10, 11] = column_entries y [6, 7, 8, 9, 10, 11]
           else diag_entries R' [6, 7, 8, 9, 10, 11] = [Big, Big, Big, Big, Big, Big]
                \<and> column_entries y' [6, 7, 8, 9, 10, 11] = [0, 0, 0, 0, 0, 0])
        \<and> (if m_MValid m
           then diag_entries R' [12, 13, 14] = [5, 5, 5]
                \<and> column_entries y' [12, 13, 14] = column_entries y [12, 13, 14]
           else diag_entries R' [12, 13, 14] = [Big, Big, Big]
                \<and> column_entries y' [12, 13, 14] = [0, 0, 0]))"
  by (simp add: Update_noise_def Let_def diag_entries_def column_entries_def
      GetM_SetM SetAll_Nil SetAll_Cons)

text \<open>
  Claim C6 as stated fails on the pitot group: with \<open>UValid\<close> false and a measured
  \<open>U2\<close> of 7 against a predicted 0, row 1 of the noise diagonal is 25, not \<open>Big\<close>, and
  row 1 of the innovation stays 7.
\<close>

theorem C6_pitot_rows_counterexample:
  "\<not> m_UValid C6_measurement
   \<and> GetM (snd (Update_noise C6_measurement
        (Update_innovation C6_measurement (fst (PredictMeasurement level_state)), Zeros 15 15)))
        1 1 = 25
   \<and> Big \<noteq> 25
   \<and> GetM (fst (Update_noise C6_measurement
        (Update_innovation C6_measurement (fst (PredictMeasurement level_state)), Zeros 15 15)))
        1 0 = 7"
  by (simp add: Update_noise_def Update_innovation_def PredictMeasurement_def Let_def
      C6_measurement_def zero_measurement_def level_state_def zero_state_def
      GetM_SetM SetAll_Nil SetAll_Cons Big_def normalize_state_def)


section \<open>Angles to quaternion and back\<close>

lemma arctan_ratio:
  fixes s c :: real
  assumes "s * s + c * c = 1" and "c \<noteq> 0"
  shows "cos (arctan (s / c)) = \<bar>c\<bar>" and "sin (arctan (s / c)) = s * \<bar>c\<bar> / c"
proof -
  have "1 + (s / c)\<^sup>2 = (c * c + s * s) / (c * c)"
    using assms(2) by (simp add: power2_eq_square field_simps)
  also have "\<dots> = 1 / c\<^sup>2" using assms(1) by (simp add: power2_eq_square add.commute)
  finally have "sqrt (1 + (s / c)\<^sup>2) = 1 / \<bar>c\<bar>"
    by (simp add: real_sqrt_divide)
  then show "cos (arctan (s / c)) = \<bar>c\<bar>" and "sin (arctan (s / c)) = s * \<bar>c\<bar> / c"
    by (simp_all add: cos_arctan sin_arctan)
qed

lemma atan2_sin_cos:
  assumes "0 < r"
  shows "sin (atan2 (r * sin a) (r * cos a)) = sin a \<and> cos (atan2 (r * sin a) (r * cos a)) = cos a"
proof -
  have unit: "sin a * sin a + cos a * cos a = 1"
    using sin_cos_squared_add[of a] by (simp add: power2_eq_square)
  have ratio: "r * sin a / (r * cos a) = sin a / cos a" using assms by simp
  consider "0 < cos a" | "cos a < 0" "0 \<le> sin a" | "cos a < 0" "sin a < 0" | "cos a = 0"
    by linarith
  then show ?thesis
  proof cases
    case 1
    then have "atan2 (r * sin a) (r * cos a) = arctan (sin a / cos a)"
      using assms by (simp add: atan2_def)
    then show ?thesis using arctan_ratio[OF unit] 1 by simp
  next
    case 2
    then have x: "r * cos a < 0" and y: "0 \<le> r * sin a"
      using assms by (simp_all add: mult_pos_neg)
    then have "atan2 (r * sin a) (r * cos a) = arctan (sin a / cos a) + pi"
      unfolding atan2_def ratio by simp
    then show ?thesis using arctan_ratio[OF unit] 2 by simp
  next
    case 3
    then have x: "r * cos a < 0" and y: "r * sin a < 0"
      using assms by (simp_all add: mult_pos_neg)
    then have "atan2 (r * sin a) (r * cos a) = arctan (sin a / cos a) - pi"
      unfolding atan2_def ratio by simp
    then show ?thesis using arctan_ratio[OF unit] 3 by simp
  next
    case 4
    then have "(sin a - 1) * (sin a + 1) = 0"
      using unit by (simp add: algebra_simps)
    then have s: "sin a = 1 \<or> sin a = - 1" by auto
    then show ?thesis
    proof
      assume "sin a = 1"
      then show ?thesis using 4 assms by (simp add: atan2_def)
    next
      assume "sin a = - 1"
      then show ?thesis using 4 assms by (simp add: atan2_def)
    qed
  qed
qed

lemma atan2_polar:
  assumes "0 < r"
  shows "\<exists>k::int. atan2 (r * sin a) (r * cos a) = a + 2 * pi * real_of_int k"
  using atan2_sin_cos[OF assms, of a] by (simp add: sin_cos_eq_iff)

lemma quaternion_products:
  fixes ca sa cb sb cc sc :: real
  assumes "ca * ca + sa * sa = 1" "cb * cb + sb * sb = 1" "cc * cc + sc * sc = 1"
  defines "q0 \<equiv> ca * cb * cc - sa * sb * sc"
    and "q1 \<equiv> sa * cb * cc + ca * sb * sc"
    and "q2 \<equiv> ca * sb * cc - sa * cb * sc"
    and "q3 \<equiv> ca * cb * sc + sa * sb * cc"
  shows "q0 * q0 + q1 * q1 + q2 * q2 + q3 * q3 = 1"
    and "2 * (q0 * q2 + q3 * q1) = 2 * sb * cb"
    and "2 * (q0 * q1 - q2 * q3) = (2 * sa * ca) * (cb * cb - sb * sb)"
    and "q0 * q0 - q1 * q1 - q2 * q2 + q3 * q3 = (ca * ca - sa * sa) * (cb * cb - sb * sb)"
    and "2 * (q0 * q3 - q1 * q2) = (2 * sc * cc) * (cb * cb - sb * sb)"
    and "q0 * q0 + q1 * q1 - q2 * q2 - q3 * q3 = (cc * cc - sc * sc) * (cb * cb - sb * sb)"
  using assms(1-3) unfolding q0_def q1_def q2_def q3_def by algebra+

lemma ToQuaternion_parts:
  "(case ToQuaternion phi theta psi of
      (q0, q1, q2, q3) \<Rightarrow>
        q0 * q0 + q1 * q1 + q2 * q2 + q3 * q3 = 1
        \<and> 2 * (q0 * q2 + q3 * q1) = sin theta
        \<and> - 2 * (q0 * q1 - q2 * q3) = cos theta * sin phi
        \<and> q0 * q0 - q1 * q1 - q2 * q2 + q3 * q3 = cos theta * cos phi
        \<and> 2 * (q0 * q3 - q1 * q2) = cos theta * sin (psi - pi / 2)
        \<and> q0 * q0 + q1 * q1 - q2 * q2 - q3 * q3 = cos theta * cos (psi - pi / 2))"
proof -
  define a where "a = - phi / 2"
  define b where "b = theta / 2"
  define c where "c = (psi - pi / 2) / 2"
  have u: "cos a * cos a + sin a * sin a = 1" "cos b * cos b + sin b * sin b = 1"
    "cos c * cos c + sin c * sin c = 1"
    using sin_cos_squared_add2[of a] sin_cos_squared_add2[of b] sin_cos_squared_add2[of c]
    by (simp_all add: power2_eq_square)
  have d: "sin theta = 2 * sin b * cos b" "cos theta = cos b * cos b - sin b * sin b"
    "sin phi = - (2 * sin a * cos a)" "cos phi = cos a * cos a - sin a * sin a"
    "sin (psi - pi / 2) = 2 * sin c * cos c" "cos (psi - pi / 2) = cos c * cos c - sin c * sin c"
  proof -
    have t: "theta = 2 * b" "phi = - (2 * a)" "psi - pi / 2 = 2 * c"
      by (simp_all add: a_def b_def c_def)
    show "sin theta = 2 * sin b * cos b" unfolding t by (rule sin_double)
    show "cos theta = cos b * cos b - sin b * sin b"
      unfolding t by (simp add: cos_double power2_eq_square)
    show "sin phi = - (2 * sin a * cos a)" unfolding t by (simp add: sin_double)
    show "cos phi = cos a * cos a - sin a * sin a"
      unfolding t by (simp add: cos_double power2_eq_square)
    show "sin (psi - pi / 2) = 2 * sin c * cos c" unfolding t by (rule sin_double)
    show "cos (psi - pi / 2) = cos c * cos c - sin c * sin c"
      unfolding t by (simp add: cos_double power2_eq_square)
  qed
  have q: "ToQuaternion phi theta psi =
      (cos a * cos b * cos c - sin a * sin b * sin c,
       sin a * cos b * cos c + cos a * sin b * sin c,
       cos a * sin b * cos c - sin a * cos b * sin c,
       cos a * cos b * sin c + sin a * sin b * cos c)"
    by (simp add: ToQuaternion_def Let_def a_def b_def c_def)
  show ?thesis
    unfolding q prod.case d
    using quaternion_products[OF u] by (simp add: mult.commute)
qed

lemma ToQuaternion_unit:
  assumes "ToQuaternion phi theta psi = (q0, q1, q2, q3)"
  shows "q0 * q0 + q1 * q1 + q2 * q2 + q3 * q3 = 1"
  using ToQuaternion_parts[where phi = phi and theta = theta and psi = psi] assms by simp

text \<open>
  Claim C7. For all angles with the pitch strictly between \<open>-pi/2\<close> and \<open>pi/2\<close>,
  \<open>FromQuaternion\<close> of \<open>ToQuaternion\<close> returns the pitch itself, and the roll and the
  heading up to a multiple of \<open>2 pi\<close>.
\<close>

theorem C7_roundtrip:
  assumes "- (pi / 2) < theta" and "theta < pi / 2"
  shows "(case ToQuaternion phi theta psi of
            (q0, q1, q2, q3) \<Rightarrow>
              (case FromQuaternion q0 q1 q2 q3 of
                 (phi', theta', psi') \<Rightarrow>
                   (\<exists>k::int. phi' = phi + 2 * pi * real_of_int k)
                   \<and> theta' = theta
                   \<and> (\<exists>k::int. psi' = psi + 2 * pi * real_of_int k)))"
proof -
  obtain q0 q1 q2 q3 where q: "ToQuaternion phi theta psi = (q0, q1, q2, q3)"
    by (cases "ToQuaternion phi theta psi") auto
  have p: "q0 * q0 + q1 * q1 + q2 * q2 + q3 * q3 = 1"
    "2 * (q0 * q2 + q3 * q1) = sin theta"
    "- 2 * (q0 * q1 - q2 * q3) = cos theta * sin phi"
    "q0 * q0 - q1 * q1 - q2 * q2 + q3 * q3 = cos theta * cos phi"
    "2 * (q0 * q3 - q1 * q2) = cos theta * sin (psi - pi / 2)"
    "q0 * q0 + q1 * q1 - q2 * q2 - q3 * q3 = cos theta * cos (psi - pi / 2)"
    using ToQuaternion_parts[where phi = phi and theta = theta and psi = psi] unfolding q by simp_all
  have r: "0 < cos theta" using assms by (intro cos_gt_zero_pi) simp_all
  obtain k1 :: int where k1: "atan2 (cos theta * sin phi) (cos theta * cos phi)
      = phi + 2 * pi * real_of_int k1"
    using atan2_polar[OF r, of phi] by blast
  obtain k3 :: int where k3: "atan2 (cos theta * sin (psi - pi / 2)) (cos theta * cos (psi - pi / 2))
      = psi - pi / 2 + 2 * pi * real_of_int k3"
    using atan2_polar[OF r, of "psi - pi / 2"] by blast
  have th: "asin (sin theta / sqrt 1) = theta"
    using assms by (simp add: asin_def arcsin_sin)
  define w where "w = pi / 2 + (psi - pi / 2 + 2 * pi * real_of_int k3)"
  have fq: "FromQuaternion q0 q1 q2 q3 =
      (phi + 2 * pi * real_of_int k1, theta, if w < - (1 / 10000) then w + 2 * pi else w)"
    unfolding FromQuaternion_def Let_def p k1 k3 th w_def by (rule refl)
  have "\<exists>k::int. (if w < - (1 / 10000) then w + 2 * pi else w) = psi + 2 * pi * real_of_int k"
  proof (cases "w < - (1 / 10000)")
    case True
    have "w + 2 * pi = psi + 2 * pi * real_of_int (k3 + 1)"
      by (simp add: w_def algebra_simps)
    with True show ?thesis by (metis (full_types))
  next
    case False
    have "w = psi + 2 * pi * real_of_int k3" by (simp add: w_def)
    with False show ?thesis by (metis (full_types))
  qed
  then show ?thesis unfolding q prod.case fq by blast
qed

text \<open>The hypotheses hold at roll \<open>pi/3\<close>, pitch \<open>pi/6\<close> and heading \<open>7 pi\<close>.\<close>

theorem C7_roundtrip_witness:
  "- (pi / 2) < pi / 6 \<and> pi / 6 < pi / 2
   \<and> (case ToQuaternion (pi / 3) (pi / 6) (7 * pi) of
            (q0, q1, q2, q3) \<Rightarrow>
              (case FromQuaternion q0 q1 q2 q3 of
                 (phi', theta', psi') \<Rightarrow>
                   (\<exists>k::int. phi' = pi / 3 + 2 * pi * real_of_int k)
                   \<and> theta' = pi / 6
                   \<and> (\<exists>k::int. psi' = 7 * pi + 2 * pi * real_of_int k)))"
proof -
  have a: "- (pi / 2) < pi / 6" using pi_gt_zero by linarith
  have b: "pi / 6 < pi / 2" using pi_gt_zero by linarith
  show ?thesis using a b C7_roundtrip[OF a b, of "pi / 3" "7 * pi"] by blast
qed

section \<open>The range of the heading\<close>

lemma arctan_le_self:
  assumes "0 \<le> x"
  shows "arctan x \<le> x"
proof -
  have "0 - arctan 0 \<le> x - arctan x"
  proof (rule DERIV_nonneg_imp_nondecreasing[of 0 x "\<lambda>u. u - arctan u"])
    show "0 \<le> x" by fact
  next
    fix u :: real
    assume "0 \<le> u" "u \<le> x"
    have "((\<lambda>u. u - arctan u) has_real_derivative (1 - 1 / (1 + u\<^sup>2))) (at u)"
      by (auto intro!: derivative_eq_intros simp: divide_inverse)
    moreover have "0 \<le> 1 - 1 / (1 + u\<^sup>2)"
    proof -
      have p: "0 < 1 + u\<^sup>2" by (simp add: add_pos_nonneg)
      have "1 / (1 + u\<^sup>2) \<le> 1" using p by (simp add: field_simps)
      then show ?thesis by simp
    qed
    ultimately show "\<exists>y. ((\<lambda>u. u - arctan u) has_real_derivative y) (at u) \<and> 0 \<le> y"
      by blast
  qed
  then show ?thesis by simp
qed

lemma atan2_range: "- pi < atan2 y x \<and> atan2 y x \<le> pi"
proof -
  have b: "- (pi / 2) < arctan (y / x)" "arctan (y / x) < pi / 2"
    using arctan_bounded[of "y / x"] by simp_all
  consider "0 < x" | "x < 0" "0 \<le> y" | "x < 0" "y < 0" | "x = 0" by linarith
  then show ?thesis
  proof cases
    case 1
    then show ?thesis using b by (simp add: atan2_def)
  next
    case 2
    then have "y / x \<le> 0" by (simp add: divide_nonneg_neg)
    then have "arctan (y / x) \<le> 0" by (simp add: arctan_le_zero_iff)
    moreover from 2 have "atan2 y x = arctan (y / x) + pi" by (simp add: atan2_def)
    ultimately show ?thesis using b pi_gt_zero by linarith
  next
    case 3
    then have "0 < y / x" by (simp add: divide_neg_neg)
    then have "0 < arctan (y / x)" by simp
    with 3 b pi_gt_zero have "atan2 y x = arctan (y / x) - pi" by (simp add: atan2_def)
    with 3 b \<open>0 < arctan (y / x)\<close> pi_gt_zero show ?thesis by linarith
  next
    case 4
    have "atan2 y 0 = pi / 2 \<or> atan2 y 0 = - pi / 2 \<or> atan2 y 0 = 0"
      by (simp add: atan2_def)
    then show ?thesis unfolding 4 using pi_gt_zero by linarith
  qed
qed

text \<open>
  Claim C9, as the code has it. The heading that \<open>FromQuaternion\<close> returns lies between
  \<open>-1/10000\<close> (included) and \<open>2 pi\<close> (excluded): the code adds \<open>2 pi\<close> only to a
  heading below \<open>-1e-4\<close>.
\<close>

theorem C9_psi_range:
  "(case FromQuaternion q0 q1 q2 q3 of
      (phi, theta, psi) \<Rightarrow> - (1 / 10000) \<le> psi \<and> psi < 2 * pi)"
proof -
  define w where "w = atan2 (2 * (q0 * q3 - q1 * q2)) (q0 * q0 + q1 * q1 - q2 * q2 - q3 * q3)"
  have r: "- pi < w" "w \<le> pi" using atan2_range unfolding w_def by simp_all
  have "snd (snd (FromQuaternion q0 q1 q2 q3))
      = (if pi / 2 + w < - (1 / 10000) then pi / 2 + w + 2 * pi else pi / 2 + w)"
    by (simp add: FromQuaternion_def Let_def w_def)
  moreover have "- (1 / 10000) \<le> (if pi / 2 + w < - (1 / 10000) then pi / 2 + w + 2 * pi else pi / 2 + w)
    \<and> (if pi / 2 + w < - (1 / 10000) then pi / 2 + w + 2 * pi else pi / 2 + w) < 2 * pi"
    using r pi_gt_zero by auto
  ultimately show ?thesis by (simp add: case_prod_beta)
qed

text \<open>
  Claim C9 as stated, a heading in \<open>[0, 2 pi)\<close>, fails for the quaternion
  \<open>(1, 0, 0, -1.00001)\<close>, of positive norm: its heading is negative, and above \<open>-1e-4\<close>.
\<close>

theorem C9_negative_heading_counterexample:
  "0 < sqrt (1 * 1 + 0 * 0 + 0 * 0 + (- (100001 / 100000)) * (- (100001 / 100000 :: real)))
   \<and> snd (snd (FromQuaternion 1 0 0 (- (100001 / 100000)))) < 0"
proof -
  define r :: real where "r = (200002 / 100000) / (200001 / 10000000000)"
  have rpos: "0 < r" by (simp add: r_def)
  have y: "2 * (1 * (- (100001 / 100000)) - 0 * 0) = - (200002 / 100000 :: real)" by simp
  have x: "1 * 1 + 0 * 0 - 0 * 0 - (- (100001 / 100000)) * (- (100001 / 100000)) = - (200001 / 10000000000 :: real)"
    by simp
  have w: "atan2 (- (200002 / 100000)) (- (200001 / 10000000000)) = arctan r - pi"
    by (simp add: atan2_def r_def)
  have inv: "arctan r = pi / 2 - arctan (1 / r)"
    using arctan_inverse[of r] rpos by simp
  have small: "arctan (1 / r) \<le> 1 / r" using rpos by (intro arctan_le_self) simp
  have pos: "0 < arctan (1 / r)" using rpos by simp
  have "1 / r < 1 / 10000" by (simp add: r_def)
  then have keep: "\<not> pi / 2 + (arctan r - pi) < - (1 / 10000)"
    using inv small by linarith
  have neg: "pi / 2 + (arctan r - pi) < 0" using inv pos by linarith
  have "snd (snd (FromQuaternion 1 0 0 (- (100001 / 100000)))) = pi / 2 + (arctan r - pi)"
    unfolding FromQuaternion_def Let_def y x w using keep by simp
  then show ?thesis using neg by (simp add: add_pos_nonneg)
qed

section \<open>Queries of the scenario\<close>

lemma Search_loop_spec:
  assumes "\<forall>a b. a \<le> b \<and> b < n \<longrightarrow> f a \<longrightarrow> f b"
    and "i \<le> j" and "j \<le> n"
    and "\<forall>k<i. \<not> f k" and "\<forall>k. j \<le> k \<and> k < n \<longrightarrow> f k"
  shows "i \<le> Search_loop f i j \<and> Search_loop f i j \<le> j
       \<and> (\<forall>k<Search_loop f i j. \<not> f k)
       \<and> (\<forall>k. Search_loop f i j \<le> k \<and> k < n \<longrightarrow> f k)"
  using assms
proof (induction f i j rule: Search_loop.induct)
  case (1 f i j)
  note mono = "1.prems"(1)
  show ?case
  proof (cases "i < j")
    case False
    with "1.prems" have "i = j" by simp
    then show ?thesis using "1.prems" by (simp add: Search_loop.simps[of f j j])
  next
    case True
    define h where "h = (i + j) div 2"
    have hb: "i \<le> h" "h < j" using True by (simp_all add: h_def)
    have hn: "h < n" using hb "1.prems"(3) by simp
    show ?thesis
    proof (cases "f h")
      case False
      have below: "\<forall>k<h + 1. \<not> f k"
      proof (intro allI impI)
        fix k assume "k < h + 1"
        then have "k \<le> h" by simp
        then show "\<not> f k" using False mono hn by blast
      qed
      have step: "Search_loop f i j = Search_loop f (h + 1) j"
        using True False by (simp add: Search_loop.simps[of f i j] h_def Let_def)
      have "h + 1 \<le> Search_loop f (h + 1) j \<and> Search_loop f (h + 1) j \<le> j
         \<and> (\<forall>k<Search_loop f (h + 1) j. \<not> f k)
         \<and> (\<forall>k. Search_loop f (h + 1) j \<le> k \<and> k < n \<longrightarrow> f k)"
        using "1.IH"(1)[OF True h_def False mono _ "1.prems"(3) below "1.prems"(5)] hb by simp
      then show ?thesis unfolding step using hb by simp
    next
      case fh: True
      have above: "\<forall>k. h \<le> k \<and> k < n \<longrightarrow> f k"
        using fh mono by blast
      have step: "Search_loop f i j = Search_loop f i h"
        using True fh by (simp add: Search_loop.simps[of f i j] h_def Let_def)
      have "i \<le> Search_loop f i h \<and> Search_loop f i h \<le> h
         \<and> (\<forall>k<Search_loop f i h. \<not> f k)
         \<and> (\<forall>k. Search_loop f i h \<le> k \<and> k < n \<longrightarrow> f k)"
        using "1.IH"(2)[OF True h_def _ mono hb(1) _ "1.prems"(4) above] fh hn by simp
      then show ?thesis unfolding step using hb by simp
    qed
  qed
qed

lemma SearchFloat64s_sorted:
  assumes "sorted ts" and "ts \<noteq> []" and "ts ! 0 < t" and "t \<le> ts ! (length ts - 1)"
  shows "1 \<le> SearchFloat64s ts t \<and> SearchFloat64s ts t < length ts
       \<and> ts ! (SearchFloat64s ts t - 1) < t \<and> t \<le> ts ! SearchFloat64s ts t"
proof -
  define r where "r = SearchFloat64s ts t"
  have mono: "\<forall>a b. a \<le> b \<and> b < length ts \<longrightarrow> t \<le> ts ! a \<longrightarrow> t \<le> ts ! b"
    using assms(1) by (auto simp: sorted_iff_nth_mono dest: order_trans)
  have spec: "0 \<le> r \<and> r \<le> length ts \<and> (\<forall>k<r. \<not> t \<le> ts ! k)
      \<and> (\<forall>k. r \<le> k \<and> k < length ts \<longrightarrow> t \<le> ts ! k)"
    unfolding r_def SearchFloat64s_def
    by (rule Search_loop_spec[where n = "length ts"]) (use mono in simp_all)
  have n: "0 < length ts" using assms(2) by simp
  have r1: "1 \<le> r"
  proof (rule ccontr)
    assume "\<not> 1 \<le> r"
    then have "r = 0" by simp
    with spec n have "t \<le> ts ! 0" by blast
    with assms(3) show False by simp
  qed
  have r2: "r < length ts"
  proof (rule ccontr)
    assume "\<not> r < length ts"
    with spec have "r = length ts" by simp
    with spec n have "\<not> t \<le> ts ! (length ts - 1)" by simp
    with assms(4) show False by simp
  qed
  have "\<not> t \<le> ts ! (r - 1)" using spec r1 by simp
  moreover have "t \<le> ts ! r" using spec r2 by blast
  ultimately show ?thesis using r1 r2 unfolding r_def by simp
qed


lemma blend_on_line:
  assumes "ts ! (i + 1) - ts ! i \<noteq> 0"
  shows "blend ((ts ! (i + 1) - t) / (ts ! (i + 1) - ts ! i)) xs i = on_line ts xs i t"
proof -
  define D where "D = ts ! (i + 1) - ts ! i"
  define u where "u = (t - ts ! i) / D"
  have D: "D \<noteq> 0" using assms by (simp add: D_def)
  have "(ts ! (i + 1) - t) / D = (D - (t - ts ! i)) / D" by (simp add: D_def)
  also have "\<dots> = D / D - (t - ts ! i) / D" by (rule diff_divide_distrib)
  also have "\<dots> = 1 - u" using D by (simp add: u_def)
  finally have f: "(ts ! (i + 1) - t) / D = 1 - u" .
  have "blend (1 - u) xs i = xs ! i + u * (xs ! (i + 1) - xs ! i)"
    by (simp add: blend_def algebra_simps)
  also have "\<dots> = on_line ts xs i t"
    by (simp add: on_line_def u_def D_def)
  finally show ?thesis unfolding f[symmetric] D_def .
qed

lemma interpolate_at:
  assumes ne: "sit_t s \<noteq> []"
    and inr: "\<not> (t < sit_t s ! 0 \<or> t > sit_t s ! (length (sit_t s) - 1))"
    and ix: "(if t > sit_t s ! 0 then int (SearchFloat64s (sit_t s) t) - 1 else 0) = int i"
    and ok: "indexable s (int i)" "indexable s (int i + 1)"
    and d: "sit_t s ! (i + 1) - sit_t s ! i \<noteq> 0"
  shows "interpolate s t = Inr (keyframe_interpolation s i t, None)"
proof -
  define f where "f = (sit_t s ! (i + 1) - t) / (sit_t s ! (i + 1) - sit_t s ! i)"
  have b: "blend f xs i = on_line (sit_t s) xs i t" for xs
    unfolding f_def by (rule blend_on_line[OF d])
  obtain e0 e1 e2 e3 where e: "ToQuaternion (on_line (sit_t s) (sit_phi s) i t)
      (on_line (sit_t s) (sit_theta s) i t) (on_line (sit_t s) (sit_psi s) i t) = (e0, e1, e2, e3)"
    by (metis prod_cases4)
  obtain f0 f1 f2 f3 where f: "ToQuaternion (on_line (sit_t s) (sit_phi0 s) i t)
      (on_line (sit_t s) (sit_theta0 s) i t) (on_line (sit_t s) (sit_psi0 s) i t) = (f0, f1, f2, f3)"
    by (metis prod_cases4)
  have ee: "sqrt (e0 * e0 + e1 * e1 + e2 * e2 + e3 * e3) = 1"
    using ToQuaternion_unit[OF e] by simp
  have ff: "sqrt (f0 * f0 + f1 * f1 + f2 * f2 + f3 * f3) = 1"
    using ToQuaternion_unit[OF f] by simp
  have "interpolate s t =
     Inr (\<lparr>x_U1 = on_line (sit_t s) (sit_u1 s) i t,
           x_U2 = on_line (sit_t s) (sit_u2 s) i t,
           x_U3 = on_line (sit_t s) (sit_u3 s) i t,
           x_E0 = e0 / 1, x_E1 = e1 / 1, x_E2 = e2 / 1, x_E3 = e3 / 1,
           x_F0 = f0 / 1, x_F1 = f1 / 1, x_F2 = f2 / 1, x_F3 = f3 / 1,
           x_V1 = on_line (sit_t s) (sit_v1 s) i t,
           x_V2 = on_line (sit_t s) (sit_v2 s) i t,
           x_V3 = on_line (sit_t s) (sit_v3 s) i t,
           x_M1 = on_line (sit_t s) (sit_m1 s) i t,
           x_M2 = on_line (sit_t s) (sit_m2 s) i t,
           x_M3 = on_line (sit_t s) (sit_m3 s) i t,
           x_T = uint32_of (t * 1000 + 0.5)\<rparr>, None)"
  proof -
    have c: "\<not> \<not> (indexable s (int i) \<and> indexable s (int i + 1))" using ok by simp
    show ?thesis
      unfolding interpolate_def if_not_P[OF ne] if_not_P[OF inr] ix Let_def nat_int
        if_not_P[OF c] if_not_P[OF d] f_def[symmetric] b e f prod.case ee ff
      by (rule refl)
  qed
  then show ?thesis by (simp add: keyframe_interpolation_def e f)
qed

lemma scenario_ok_indexable:
  assumes "scenario_ok s" and "i < length (sit_t s)"
  shows "indexable s (int i)"
  using assms unfolding scenario_ok_def indexable_def slices_def by simp

text \<open>
  Claim C8, as the code has it. For a scenario with a value in every slice for every
  keyframe, at least two keyframes, times that do not decrease and a first time below
  the second: outside the range of the times \<open>interpolate\<close>, \<open>derivative\<close> and
  \<open>measurement\<close> return the zero value and the error; inside it \<open>interpolate\<close> returns
  without error the interpolation between two adjacent keyframes \<open>i\<close> and \<open>i + 1\<close> that
  enclose \<open>t\<close>: every vector component and every angle on the line through its two
  keyframe values, the quaternions those of the interpolated angles.
\<close>

theorem C8_interpolate:
  assumes "scenario_ok s"
  shows "(t < sit_t s ! 0 \<or> t > sit_t s ! (length (sit_t s) - 1) \<longrightarrow>
            interpolate s t = Inr (zero_SimState, Some out_of_scenario)
            \<and> derivative s t = Inr (zero_SimState, Some out_of_scenario)
            \<and> measurement s t = Inr (zero_SimMeasurement, Some out_of_scenario))
       \<and> (sit_t s ! 0 \<le> t \<and> t \<le> sit_t s ! (length (sit_t s) - 1) \<longrightarrow>
            (\<exists>i. i + 1 < length (sit_t s) \<and> sit_t s ! i \<le> t \<and> t \<le> sit_t s ! (i + 1)
                 \<and> interpolate s t = Inr (keyframe_interpolation s i t, None)))"
proof (intro conjI impI)
  have ne: "sit_t s \<noteq> []" using assms by (auto simp: scenario_ok_def)
  {
    assume out: "t < sit_t s ! 0 \<or> t > sit_t s ! (length (sit_t s) - 1)"
    show "interpolate s t = Inr (zero_SimState, Some out_of_scenario)"
      using ne out by (simp add: interpolate_def)
    show "derivative s t = Inr (zero_SimState, Some out_of_scenario)"
      using ne out by (simp add: derivative_def)
    show "measurement s t = Inr (zero_SimMeasurement, Some out_of_scenario)"
      using ne out by (simp add: measurement_def)
  }
  assume rng: "sit_t s ! 0 \<le> t \<and> t \<le> sit_t s ! (length (sit_t s) - 1)"
  then have inr: "\<not> (t < sit_t s ! 0 \<or> t > sit_t s ! (length (sit_t s) - 1))" by simp
  have srt: "sorted (sit_t s)" and two: "2 \<le> length (sit_t s)"
    and first: "sit_t s ! 0 < sit_t s ! 1"
    using assms by (simp_all add: scenario_ok_def)
  show "\<exists>i. i + 1 < length (sit_t s) \<and> sit_t s ! i \<le> t \<and> t \<le> sit_t s ! (i + 1)
                 \<and> interpolate s t = Inr (keyframe_interpolation s i t, None)"
  proof (cases "t > sit_t s ! 0")
    case True
    define r where "r = SearchFloat64s (sit_t s) t"
    have r: "1 \<le> r" "r < length (sit_t s)" "sit_t s ! (r - 1) < t" "t \<le> sit_t s ! r"
      using SearchFloat64s_sorted[OF srt ne True] rng unfolding r_def by simp_all
    define i where "i = r - 1"
    have i: "i + 1 = r" using r(1) by (simp add: i_def)
    have ix: "(if t > sit_t s ! 0 then int (SearchFloat64s (sit_t s) t) - 1 else 0) = int i"
      using True r(1) by (simp add: r_def[symmetric] i_def)
    have d: "sit_t s ! (i + 1) - sit_t s ! i \<noteq> 0"
      unfolding i using r(3,4) by (simp add: i_def)
    have ok: "indexable s (int i)" "indexable s (int i + 1)"
      using scenario_ok_indexable[OF assms, of i] scenario_ok_indexable[OF assms, of "i + 1"] r(2) i
      by (simp_all add: add.commute)
    have "interpolate s t = Inr (keyframe_interpolation s i t, None)"
      by (rule interpolate_at[OF ne inr ix ok d])
    moreover have "i + 1 < length (sit_t s)" "sit_t s ! i \<le> t" "t \<le> sit_t s ! (i + 1)"
      using r i by (simp_all add: i_def)
    ultimately show ?thesis by blast
  next
    case False
    with rng have t0: "t = sit_t s ! 0" by simp
    have ix: "(if t > sit_t s ! 0 then int (SearchFloat64s (sit_t s) t) - 1 else 0) = int 0"
      using False by simp
    have d: "sit_t s ! (0 + 1) - sit_t s ! 0 \<noteq> 0" using first by simp
    have ok: "indexable s (int 0)" "indexable s (int 0 + 1)"
      using scenario_ok_indexable[OF assms, of 0] scenario_ok_indexable[OF assms, of 1] two ne
      by (simp_all add: add.commute)
    have "interpolate s t = Inr (keyframe_interpolation s 0 t, None)"
      by (rule interpolate_at[OF ne inr ix ok d])
    moreover have "0 + 1 < length (sit_t s)" "sit_t s ! 0 \<le> t" "t \<le> sit_t s ! (0 + 1)"
      using two t0 first by simp_all
    ultimately show ?thesis by blast
  qed
qed

lemma sitTurnDef_ok: "scenario_ok sitTurnDef"
  by (simp add: scenario_ok_def sitTurnDef_def slices_def)

text \<open>The hypotheses hold for the turn of the simulator, at 300 s and at 12 s.\<close>

theorem C8_interpolate_witness:
  "scenario_ok sitTurnDef
   \<and> (300 < sit_t sitTurnDef ! 0 \<or> 300 > sit_t sitTurnDef ! (length (sit_t sitTurnDef) - 1))
   \<and> interpolate sitTurnDef 300 = Inr (zero_SimState, Some out_of_scenario)
   \<and> derivative sitTurnDef 300 = Inr (zero_SimState, Some out_of_scenario)
   \<and> measurement sitTurnDef 300 = Inr (zero_SimMeasurement, Some out_of_scenario)
   \<and> sit_t sitTurnDef ! 0 \<le> 12 \<and> 12 \<le> sit_t sitTurnDef ! (length (sit_t sitTurnDef) - 1)
   \<and> (\<exists>i. i + 1 < length (sit_t sitTurnDef)
          \<and> sit_t sitTurnDef ! i \<le> 12 \<and> 12 \<le> sit_t sitTurnDef ! (i + 1)
          \<and> interpolate sitTurnDef 12 = Inr (keyframe_interpolation sitTurnDef i 12, None))"
proof -
  have out: "300 < sit_t sitTurnDef ! 0 \<or> 300 > sit_t sitTurnDef ! (length (sit_t sitTurnDef) - 1)"
    by (simp add: sitTurnDef_def)
  have inside: "sit_t sitTurnDef ! 0 \<le> 12 \<and> 12 \<le> sit_t sitTurnDef ! (length (sit_t sitTurnDef) - 1)"
    by (simp add: sitTurnDef_def)
  show ?thesis
    using C8_interpolate[OF sitTurnDef_ok, of 300] C8_interpolate[OF sitTurnDef_ok, of 12]
      sitTurnDef_ok out inside
    by blast
qed

text \<open>
  Claim C8 as stated fails for a scenario of one keyframe: at the time of the keyframe,
  inside the range, \<open>interpolate\<close> reads \<open>s.t[1]\<close> and panics.
\<close>

theorem C8_one_keyframe_counterexample:
  "sorted (sit_t one_keyframe)
   \<and> sit_t one_keyframe ! 0 \<le> 0 \<and> 0 \<le> sit_t one_keyframe ! (length (sit_t one_keyframe) - 1)
   \<and> interpolate one_keyframe 0 = Inl IndexOutOfRange"
  by (simp add: interpolate_def one_keyframe_def indexable_def slices_def)

text \<open>
  With two keyframes at the same time the factor \<open>f\<close> at that time is zero divided by
  zero.
\<close>

lemma step_keyframes_divides_by_zero:
  "sorted (sit_t step_keyframes) \<and> interpolate step_keyframes 0 = Inl FloatZeroDivide"
  by (simp add: interpolate_def step_keyframes_def indexable_def slices_def)


section \<open>Reading the accumulated samples\<close>

text \<open>What \<open>Read\<close> leaves of the device: the configuration as it was, everything summed reset.\<close>

lemma Read_device:
  "fst (snd (Read USEMAG now m)) =
     m\<lparr>mpu_n := 0, mpu_nm := 0,
       mpu_g1 := 0, mpu_g2 := 0, mpu_g3 := 0,
       mpu_a1 := 0, mpu_a2 := 0, mpu_a3 := 0,
       mpu_m1 := 0, mpu_m2 := 0, mpu_m3 := 0\<rparr>"
  by (simp add: Read_def Let_def split: prod.splits)

text \<open>
  Claim C10. With no gyro or accelerometer sample accumulated since the previous call,
  \<open>Read\<close> returns an error for the pair and zero gyro and accelerometer values; with
  samples, the sums divided by the count and scaled. Either way the nine accumulators
  and the two counts are zero when it returns. (The count \<open>n\<close> only ever is zero or
  positive; the branch without samples is the one for \<open>n \<le> 0\<close>.)
\<close>

theorem C10_Read_average_and_reset:
  "(case Read USEMAG now m of
      (r, m', lg) \<Rightarrow>
        (if mpu_n m > 0
         then r_gaError r = None
              \<and> r_g1 r = float64_of (mpu_g1 m) / mpu_n m * mpu_scaleGyro m
              \<and> r_g2 r = float64_of (mpu_g2 m) / mpu_n m * mpu_scaleGyro m
              \<and> r_g3 r = float64_of (mpu_g3 m) / mpu_n m * mpu_scaleGyro m
              \<and> r_a1 r = float64_of (mpu_a1 m) / mpu_n m * mpu_scaleAccel m
              \<and> r_a2 r = float64_of (mpu_a2 m) / mpu_n m * mpu_scaleAccel m
              \<and> r_a3 r = float64_of (mpu_a3 m) / mpu_n m * mpu_scaleAccel m
         else r_gaError r \<noteq> None
              \<and> r_g1 r = 0 \<and> r_g2 r = 0 \<and> r_g3 r = 0
              \<and> r_a1 r = 0 \<and> r_a2 r = 0 \<and> r_a3 r = 0)
        \<and> accumulators m' = [0, 0, 0, 0, 0, 0, 0, 0, 0]
        \<and> mpu_n m' = 0 \<and> mpu_nm m' = 0)"
  by (simp add: Read_def Let_def zero_Reading_def accumulators_def split: prod.splits)

text \<open>
  Consecutive reads average disjoint windows: after a \<open>Read\<close>, the samples accumulated
  next are summed from zero, whatever had been summed before the \<open>Read\<close>.
\<close>

lemma accumulate_config:
  "mpu_g01 (accumulate m x) = mpu_g01 m" "mpu_g02 (accumulate m x) = mpu_g02 m"
  "mpu_g03 (accumulate m x) = mpu_g03 m" "mpu_a01 (accumulate m x) = mpu_a01 m"
  "mpu_a02 (accumulate m x) = mpu_a02 m" "mpu_a03 (accumulate m x) = mpu_a03 m"
  by (simp_all add: accumulate_def)

lemma Read_forgets_window:
  assumes "m2 = m1\<lparr>mpu_n := n, mpu_nm := nm, mpu_g1 := g1, mpu_g2 := g2, mpu_g3 := g3,
                    mpu_a1 := a1, mpu_a2 := a2, mpu_a3 := a3,
                    mpu_m1 := k1, mpu_m2 := k2, mpu_m3 := k3\<rparr>"
  shows "Read USEMAG now' (foldl accumulate (fst (snd (Read USEMAG now m2))) xs)
       = Read USEMAG now' (foldl accumulate (fst (snd (Read USEMAG now m1))) xs)"
  unfolding Read_device assms by simp


end

